theory Spec2Isabelle
  imports Complex_Main
begin

section \<open>Python values and the builtins the calculator calls\<close>

text \<open>
  A student record reaches the calculator as a Python dict from field names to values.
  The values the conversions \<^verbatim>\<open>float()\<close> and \<^verbatim>\<open>int()\<close> tell apart are modelled by
  \<open>pyval\<close>: an integer (Python's unbounded \<^verbatim>\<open>int\<close>, which covers \<^verbatim>\<open>bool\<close>), a float, a
  string, and \<open>PNone\<close> for \<^verbatim>\<open>None\<close>.

  Scope of the number model: a Python float is a finite number, taken as the exact
  rational it denotes. The rounding of binary64 arithmetic, NaN and the infinities are
  outside this model. An \<^verbatim>\<open>int\<close> is unbounded, and where the code turns one into a float
  that is beyond the range of a double, the \<^verbatim>\<open>OverflowError\<close> that Python raises is part
  of the model.
\<close>

datatype pyval = PInt int | PFloat rat | PStr string | PNone

datatype pyerror = ValueError string | TypeError string | OverflowError string

text \<open>
  What \<^verbatim>\<open>float()\<close> and \<^verbatim>\<open>int()\<close> make of a string is library code outside the
  repository. The two string parsers are parameters of the model: \<open>None\<close> from a parser
  stands for the library raising \<^verbatim>\<open>ValueError\<close>. The third parameter is \<^verbatim>\<open>repr\<close> of a
  string, which the messages of these errors quote. The message texts of the exceptions
  follow CPython 3.11.
\<close>

record py_builtins =
  str_to_float :: "string \<Rightarrow> rat option"
  str_to_int :: "string \<Rightarrow> int option"
  repr_str :: "string \<Rightarrow> string"

text \<open>
  A formatted string literal is kept as its segments: literal text and the numbers
  interpolated into it (\<^verbatim>\<open>{x}\<close> of a float, \<^verbatim>\<open>{x:.1f}\<close>, \<^verbatim>\<open>{n}\<close> of an int).
\<close>

datatype fpart = Lit string | Fmt_float rat | Fmt_float1 rat | Fmt_int int

fun str_exc :: "pyerror \<Rightarrow> string" where
  "str_exc (ValueError m) = m"
| "str_exc (TypeError m) = m"
| "str_exc (OverflowError m) = m"

text \<open>
  The largest double is \<open>2^1024 - 2^971\<close>. A number rounds to a double, to the nearest
  with ties to even, unless its magnitude is at least \<open>2^1024 - 2^970\<close>, half an ulp
  above the largest double. Python raises \<^verbatim>\<open>OverflowError\<close> when it converts such an
  \<^verbatim>\<open>int\<close> to a float, and when the true division \<^verbatim>\<open>/\<close> of two \<^verbatim>\<open>int\<close>s has such a
  quotient.
\<close>

definition float_limit :: rat where
  "float_limit = 2 ^ 1024 - 2 ^ 970"

definition float_overflows :: "rat \<Rightarrow> bool" where
  "float_overflows x = (float_limit \<le> \<bar>x\<bar>)"

text \<open>
  \<^verbatim>\<open>a / b\<close> of two \<^verbatim>\<open>int\<close>s; the calculator divides by the literals 90 and 4 only, so a
  zero divisor does not occur.
\<close>

definition int_truediv :: "int \<Rightarrow> int \<Rightarrow> pyerror + rat" where
  "int_truediv a b =
     (if float_overflows (of_int a / of_int b)
      then Inl (OverflowError ''integer division result too large for a float'')
      else Inr (of_int a / of_int b))"

fun py_float :: "py_builtins \<Rightarrow> pyval \<Rightarrow> pyerror + rat" where
  "py_float B (PInt i) =
     (if float_overflows (of_int i)
      then Inl (OverflowError ''int too large to convert to float'')
      else Inr (of_int i))"
| "py_float B (PFloat x) = Inr x"
| "py_float B (PStr s) =
     (case str_to_float B s of
        Some x \<Rightarrow> Inr x
      | None \<Rightarrow> Inl (ValueError (''could not convert string to float: '' @ repr_str B s)))"
| "py_float B PNone =
     Inl (TypeError (''float() argument must be a string or a real number, not '' @
                     [CHR 0x27] @ ''NoneType'' @ [CHR 0x27]))"

text \<open>\<^verbatim>\<open>int()\<close> of a float truncates towards zero.\<close>

definition trunc_toward_zero :: "rat \<Rightarrow> int" where
  "trunc_toward_zero x = (if 0 \<le> x then \<lfloor>x\<rfloor> else \<lceil>x\<rceil>)"

fun py_int :: "py_builtins \<Rightarrow> pyval \<Rightarrow> pyerror + int" where
  "py_int B (PInt i) = Inr i"
| "py_int B (PFloat x) = Inr (trunc_toward_zero x)"
| "py_int B (PStr s) =
     (case str_to_int B s of
        Some i \<Rightarrow> Inr i
      | None \<Rightarrow> Inl (ValueError (''invalid literal for int() with base 10: '' @ repr_str B s)))"
| "py_int B PNone =
     Inl (TypeError
       (''int() argument must be a string, a bytes-like object or a real number, not '' @
        [CHR 0x27] @ ''NoneType'' @ [CHR 0x27]))"

text \<open>
  An instance of the parsers for plain decimal literals: an optional sign, digits, and
  for \<^verbatim>\<open>float()\<close> an optional fraction after a point; \<^verbatim>\<open>repr\<close> puts a string between
  single quotes, which is what Python does for a string with no quote, backslash or
  unprintable character in it. The instance is used to run the calculator on concrete
  records; the theorems below hold for every instance.
\<close>

definition all_digits :: "string \<Rightarrow> bool" where
  "all_digits s = list_all (\<lambda>c. c \<in> set ''0123456789'') s"

definition digits_value :: "string \<Rightarrow> nat" where
  "digits_value s = foldl (\<lambda>acc c. 10 * acc + (of_char c - 48)) 0 s"

definition split_sign :: "string \<Rightarrow> bool \<times> string" where
  "split_sign s =
     (case s of
        [] \<Rightarrow> (False, s)
      | c # cs \<Rightarrow>
          if c = CHR ''-'' then (True, cs)
          else if c = CHR ''+'' then (False, cs)
          else (False, s))"

definition plain_int :: "string \<Rightarrow> int option" where
  "plain_int s =
     (let (neg, body) = split_sign s
      in if body \<noteq> [] \<and> all_digits body
         then Some (if neg then - int (digits_value body) else int (digits_value body))
         else None)"

definition plain_float :: "string \<Rightarrow> rat option" where
  "plain_float s =
     (let (neg, body) = split_sign s;
          ip = takeWhile (\<lambda>c. c \<noteq> CHR ''.'') body;
          fp = drop 1 (dropWhile (\<lambda>c. c \<noteq> CHR ''.'') body);
          v = of_nat (digits_value (ip @ fp)) / 10 ^ length fp
      in if (ip \<noteq> [] \<or> fp \<noteq> []) \<and> all_digits ip \<and> all_digits fp
         then Some (if neg then - v else v)
         else None)"

definition plain_repr :: "string \<Rightarrow> string" where
  "plain_repr s = [CHR 0x27] @ s @ [CHR 0x27]"

definition plain_literals :: py_builtins where
  "plain_literals =
     \<lparr>str_to_float = plain_float, str_to_int = plain_int, repr_str = plain_repr\<rparr>"

text \<open>\<^verbatim>\<open>d.get(k, default)\<close>.\<close>

definition dict_get :: "(string \<rightharpoonup> pyval) \<Rightarrow> string \<Rightarrow> pyval \<Rightarrow> pyval" where
  "dict_get d k dflt = (case d k of None \<Rightarrow> dflt | Some v \<Rightarrow> v)"

text \<open>
  Sequencing of statements that may raise: the first exception ends the block. A call
  returns \<open>Inr\<close> of its value, or \<open>Inl\<close> of the exception that leaves it.
\<close>

definition bind_err :: "'e + 'a \<Rightarrow> ('a \<Rightarrow> 'e + 'b) \<Rightarrow> 'e + 'b" where
  "bind_err m f = (case m of Inl e \<Rightarrow> Inl e | Inr x \<Rightarrow> f x)"

text \<open>
  The handlers of the calculator are \<^verbatim>\<open>except (ValueError, TypeError) as e\<close>. An
  \<^verbatim>\<open>OverflowError\<close> is an \<^verbatim>\<open>ArithmeticError\<close>, a subclass of neither, and passes them.
\<close>

fun caught :: "pyerror \<Rightarrow> bool" where
  "caught (ValueError m) = True"
| "caught (TypeError m) = True"
| "caught (OverflowError m) = False"

text \<open>
  \<^verbatim>\<open>round(x, n)\<close> on a float rounds to \<open>n\<close> decimals, a tie going to the even
  neighbour.
\<close>

definition round_half_even :: "rat \<Rightarrow> int" where
  "round_half_even x =
     (let f = \<lfloor>x\<rfloor>; r = x - of_int f
      in if r < 1 / 2 then f else if 1 / 2 < r then f + 1 else if even f then f else f + 1)"

definition py_round :: "rat \<Rightarrow> nat \<Rightarrow> rat" where
  "py_round x n = of_int (round_half_even (x * 10 ^ n)) / 10 ^ n"

section \<open>The calculator's configuration\<close>

text \<open>
  \<^verbatim>\<open>RiskCalculator.__init__\<close> takes no argument and stores three constant dicts. The risk
  level strings \<^verbatim>\<open>'High'\<close>, \<^verbatim>\<open>'Medium'\<close>, \<^verbatim>\<open>'Low'\<close> are the datatype \<open>level\<close>; the dicts
  are only ever read at the literal keys below.
\<close>

datatype level = High | Medium | Low

definition weights_attendance :: rat where "weights_attendance = 50 / 100"
definition weights_score_trend :: rat where "weights_score_trend = 30 / 100"
definition weights_fees :: rat where "weights_fees = 15 / 100"
definition weights_attempts :: rat where "weights_attempts = 5 / 100"

definition thresholds_high :: rat where "thresholds_high = 70 / 100"
definition thresholds_medium :: rat where "thresholds_medium = 40 / 100"

fun colors :: "level \<Rightarrow> string" where
  "colors High = ''danger''"
| "colors Medium = ''warning''"
| "colors Low = ''success''"

section \<open>Component risks\<close>

definition calculate_attendance_risk :: "rat \<Rightarrow> rat" where
  "calculate_attendance_risk attendance_percent =
     (if 75 \<le> attendance_percent then 0
      else max 0 ((75 - attendance_percent) / 75))"

definition calculate_score_trend_risk :: "rat \<Rightarrow> rat \<Rightarrow> rat" where
  "calculate_score_trend_risk previous_avg current_avg =
     (if previous_avg = 0 \<or> current_avg = 0 then 0
      else let score_drop = previous_avg - current_avg
           in if score_drop \<le> 0 then 0
              else min (max (score_drop / 100) 0) 1)"

text \<open>
  The callers pass \<^verbatim>\<open>int\<close>s to the next two functions, which divide them with \<^verbatim>\<open>/\<close>.
\<close>

definition calculate_fee_risk :: "int \<Rightarrow> pyerror + rat" where
  "calculate_fee_risk fees_due_days =
     bind_err (int_truediv fees_due_days 90) (\<lambda>q. Inr (min q 1))"

definition calculate_attempts_risk :: "int \<Rightarrow> pyerror + rat" where
  "calculate_attempts_risk attempts =
     (if attempts \<le> 1 then Inr 0
      else bind_err (int_truediv (attempts - 1) 4) (\<lambda>q. Inr (min q 1)))"

section \<open>Reading the record\<close>

text \<open>
  Both \<^verbatim>\<open>calculate_risk\<close> and \<^verbatim>\<open>calculate_detailed_risk\<close> open their \<^verbatim>\<open>try\<close> block with
  the same five statements, in this order; the first conversion that raises ends the
  block.
\<close>

definition extract_fields ::
  "py_builtins \<Rightarrow> (string \<rightharpoonup> pyval) \<Rightarrow> pyerror + (rat \<times> int \<times> int \<times> rat \<times> rat)" where
  "extract_fields B student_data =
     bind_err (py_float B (dict_get student_data ''attendance_percent'' (PInt 0))) (\<lambda>attendance.
     bind_err (py_int B (dict_get student_data ''fees_due_days'' (PInt 0))) (\<lambda>fees_due.
     bind_err (py_int B (dict_get student_data ''attempts_in_subject_X'' (PInt 1))) (\<lambda>attempts.
     bind_err (py_float B (dict_get student_data ''previous_3_tests_avg'' (PInt 0))) (\<lambda>previous_avg.
     bind_err (py_float B (dict_get student_data ''last_3_tests_avg'' (PInt 0))) (\<lambda>current_avg.
     Inr (attendance, fees_due, attempts, previous_avg, current_avg))))))"

section \<open>The summary: \<^verbatim>\<open>calculate_risk\<close>\<close>

record risk_summary =
  risk_score :: rat
  risk_level :: level
  risk_color :: string
  error :: "string option"

definition calculate_risk ::
  "py_builtins \<Rightarrow> (string \<rightharpoonup> pyval) \<Rightarrow> pyerror + risk_summary" where
  "calculate_risk B student_data =
     (case
        bind_err (extract_fields B student_data)
          (\<lambda>(attendance, fees_due, attempts, previous_avg, current_avg).
            let attendance_risk = calculate_attendance_risk attendance;
                score_risk = calculate_score_trend_risk previous_avg current_avg
            in
            bind_err (calculate_fee_risk fees_due) (\<lambda>fee_risk.
            bind_err (calculate_attempts_risk attempts) (\<lambda>attempts_risk.
            let score = weights_attendance * attendance_risk +
                        weights_score_trend * score_risk +
                        weights_fees * fee_risk +
                        weights_attempts * attempts_risk;
                lvl = (if thresholds_high \<le> score then High
                       else if thresholds_medium \<le> score then Medium
                       else Low)
            in Inr \<lparr>risk_score = score, risk_level = lvl, risk_color = colors lvl,
                    error = None\<rparr>)))
      of
        Inr r \<Rightarrow> Inr r
      | Inl e \<Rightarrow>
          if caught e then
            Inr \<lparr>risk_score = 0, risk_level = Low, risk_color = colors Low,
                 error = Some (''Data processing error: '' @ str_exc e)\<rparr>
          else Inl e)"

section \<open>The detailed assessment: \<^verbatim>\<open>calculate_detailed_risk\<close>\<close>

record risk_factor =
  factor :: string
  fvalue :: "fpart list"
  risk_contribution :: rat
  severity :: level

record components =
  attendance_c :: rat
  score_trend_c :: rat
  fee_c :: rat
  attempts_c :: rat

record risk_assessment = risk_summary +
  risk_components :: "components option"
  weighted_components :: "components option"
  risk_factors :: "risk_factor list"
  top_reasons :: "risk_factor list"
  recommendations :: "string list"

definition generate_recommendations ::
  "py_builtins \<Rightarrow> (string \<rightharpoonup> pyval) \<Rightarrow> risk_factor list \<Rightarrow> pyerror + string list" where
  "generate_recommendations B student_data rfs =
     (let recs = [];
          primary_risks = map factor (filter (\<lambda>f. severity f \<in> {High, Medium}) rfs)
      in
      bind_err
        (if ''Attendance'' \<in> set primary_risks then
           bind_err (py_float B (dict_get student_data ''attendance_percent'' (PInt 0))) (\<lambda>attendance.
           Inr (recs @
             [if attendance < 50 then
                ''URGENT: Schedule immediate parent-teacher meeting and attendance counseling''
              else if attendance < 65 then
                ''Schedule one-on-one attendance counseling session''
              else
                ''Monitor attendance closely and provide gentle reminders'']))
         else Inr recs) (\<lambda>recs.
      bind_err
        (if ''Test Score Trend'' \<in> set primary_risks then
           bind_err (py_float B (dict_get student_data ''previous_3_tests_avg'' (PInt 0))) (\<lambda>p.
           bind_err (py_float B (dict_get student_data ''last_3_tests_avg'' (PInt 0))) (\<lambda>c.
           let score_drop = p - c in
           Inr (recs @
             [if 15 < score_drop then
                ''Arrange remedial classes and peer tutoring support''
              else if 8 < score_drop then
                ''Provide additional study materials and practice sessions''
              else
                ''Regular check-ins on study habits and academic support''])))
         else Inr recs) (\<lambda>recs.
      bind_err
        (if ''Fee Payment'' \<in> set primary_risks then
           bind_err (py_int B (dict_get student_data ''fees_due_days'' (PInt 0))) (\<lambda>fees_due.
           Inr (recs @
             [if 90 < fees_due then
                ''Connect with financial aid office for payment plan options''
              else
                ''Send fee payment reminder and discuss any financial difficulties'']))
         else Inr recs) (\<lambda>recs.
      bind_err
        (if ''Subject Attempts'' \<in> set primary_risks then
           bind_err (py_int B (dict_get student_data ''attempts_in_subject_X'' (PInt 1))) (\<lambda>attempts.
           Inr (recs @
             [if 4 \<le> attempts then
                ''Consider alternative learning methods or course modification''
              else
                ''Provide focused support for challenging subject areas'']))
         else Inr recs) (\<lambda>recs.
      let overall_risk = length (filter (\<lambda>f. severity f = High) rfs);
          recs = (if 2 \<le> overall_risk then
                    recs @ [''Schedule weekly mentor meetings and create comprehensive support plan'']
                  else if 1 \<le> overall_risk then
                    recs @ [''Bi-weekly check-ins and targeted intervention strategy'']
                  else recs)
      in Inr (take 3 recs))))))"

text \<open>
  \<^verbatim>\<open>list.sort(key=..., reverse=True)\<close> is a stable sort into descending key order: a stable
  ascending sort on the negated key.
\<close>

definition sort_by_contribution :: "risk_factor list \<Rightarrow> risk_factor list" where
  "sort_by_contribution rfs = sort_key (\<lambda>x. - risk_contribution x) rfs"

definition calculate_detailed_risk ::
  "py_builtins \<Rightarrow> (string \<rightharpoonup> pyval) \<Rightarrow> pyerror + risk_assessment" where
  "calculate_detailed_risk B student_data =
     (case
        bind_err (extract_fields B student_data)
          (\<lambda>(attendance, fees_due, attempts, previous_avg, current_avg).
            let attendance_risk = calculate_attendance_risk attendance;
                score_risk = calculate_score_trend_risk previous_avg current_avg
            in
            bind_err (calculate_fee_risk fees_due) (\<lambda>fee_risk.
            bind_err (calculate_attempts_risk attempts) (\<lambda>attempts_risk.
            let score = weights_attendance * attendance_risk +
                        weights_score_trend * score_risk +
                        weights_fees * fee_risk +
                        weights_attempts * attempts_risk;
                lvl = (if thresholds_high \<le> score then High
                       else if thresholds_medium \<le> score then Medium
                       else Low);
                rfs = [];
                rfs = (if 0 < attendance_risk then
                         rfs @ [\<lparr>factor = ''Attendance'',
                                 fvalue = [Fmt_float attendance, Lit ''% (below 75%)''],
                                 risk_contribution = attendance_risk * weights_attendance,
                                 severity = (if attendance < 50 then High
                                             else if attendance < 65 then Medium else Low)\<rparr>]
                       else rfs);
                rfs = (if 0 < score_risk then
                         let score_drop = previous_avg - current_avg in
                         rfs @ [\<lparr>factor = ''Test Score Trend'',
                                 fvalue = [Lit ''Dropped by '', Fmt_float1 score_drop, Lit '' points''],
                                 risk_contribution = score_risk * weights_score_trend,
                                 severity = (if 15 < score_drop then High
                                             else if 8 < score_drop then Medium else Low)\<rparr>]
                       else rfs);
                rfs = (if 0 < fee_risk then
                         rfs @ [\<lparr>factor = ''Fee Payment'',
                                 fvalue = [Fmt_int fees_due, Lit '' days overdue''],
                                 risk_contribution = fee_risk * weights_fees,
                                 severity = (if 90 < fees_due then High
                                             else if 30 < fees_due then Medium else Low)\<rparr>]
                       else rfs);
                rfs = (if 0 < attempts_risk then
                         rfs @ [\<lparr>factor = ''Subject Attempts'',
                                 fvalue = [Fmt_int attempts, Lit '' attempts''],
                                 risk_contribution = attempts_risk * weights_attempts,
                                 severity = (if 4 \<le> attempts then High
                                             else if 3 \<le> attempts then Medium else Low)\<rparr>]
                       else rfs);
                rfs = sort_by_contribution rfs;
                top = (if 2 \<le> length rfs then take 2 rfs else rfs)
            in bind_err (generate_recommendations B student_data rfs) (\<lambda>recs.
               Inr \<lparr>risk_score = py_round score 3,
                    risk_level = lvl,
                    risk_color = colors lvl,
                    error = None,
                    risk_components = Some
                      \<lparr>attendance_c = py_round attendance_risk 3,
                       score_trend_c = py_round score_risk 3,
                       fee_c = py_round fee_risk 3,
                       attempts_c = py_round attempts_risk 3\<rparr>,
                    weighted_components = Some
                      \<lparr>attendance_c = py_round (attendance_risk * weights_attendance) 3,
                       score_trend_c = py_round (score_risk * weights_score_trend) 3,
                       fee_c = py_round (fee_risk * weights_fees) 3,
                       attempts_c = py_round (attempts_risk * weights_attempts) 3\<rparr>,
                    risk_factors = rfs,
                    top_reasons = top,
                    recommendations = recs\<rparr>))))
      of
        Inr r \<Rightarrow> Inr r
      | Inl e \<Rightarrow>
          if caught e then
            Inr \<lparr>risk_score = 0, risk_level = Low, risk_color = colors Low,
                 error = Some (''Detailed analysis error: '' @ str_exc e),
                 risk_components = None, weighted_components = None,
                 risk_factors = [], top_reasons = [], recommendations = []\<rparr>
          else Inl e)"

section \<open>Vocabulary of the properties\<close>

text \<open>The order of the risk levels: Low below Medium below High.\<close>

fun level_rank :: "level \<Rightarrow> nat" where
  "level_rank Low = 0"
| "level_rank Medium = 1"
| "level_rank High = 2"

text \<open>
  The position of a factor in the order in which \<^verbatim>\<open>calculate_detailed_risk\<close> evaluates
  the components: attendance, score trend, fees, attempts.
\<close>

definition evaluation_order :: "string \<Rightarrow> nat" where
  "evaluation_order name =
     (if name = ''Attendance'' then 0
      else if name = ''Test Score Trend'' then 1
      else if name = ''Fee Payment'' then 2
      else if name = ''Subject Attempts'' then 3
      else 4)"

text \<open>
  What a caller observes of a call: \<open>None\<close> when an exception leaves the function, else
  the given field of the value returned.
\<close>

definition returned :: "('a \<Rightarrow> 'b) \<Rightarrow> pyerror + 'a \<Rightarrow> 'b option" where
  "returned f r = (case r of Inl e \<Rightarrow> None | Inr x \<Rightarrow> Some (f x))"

text \<open>A number with at most three decimals: a whole number of thousandths.\<close>

definition three_decimals :: "rat \<Rightarrow> bool" where
  "three_decimals x = (of_int \<lfloor>x * 1000\<rfloor> = x * 1000)"

text \<open>The defaults that the five calls of \<^verbatim>\<open>student_data.get\<close> pass.\<close>

definition field_defaults :: "string \<rightharpoonup> pyval" where
  "field_defaults =
     [''attendance_percent'' \<mapsto> PInt 0,
      ''fees_due_days'' \<mapsto> PInt 0,
      ''attempts_in_subject_X'' \<mapsto> PInt 1,
      ''previous_3_tests_avg'' \<mapsto> PInt 0,
      ''last_3_tests_avg'' \<mapsto> PInt 0]"

text \<open>
  The list of factors that \<^verbatim>\<open>calculate_detailed_risk\<close> has appended when it reaches the
  call of \<^verbatim>\<open>sort\<close>, as a function of the five values read from the record and of the
  fee risk and the attempts risk computed from them.
\<close>

definition appended_factors ::
  "rat \<Rightarrow> int \<Rightarrow> int \<Rightarrow> rat \<Rightarrow> rat \<Rightarrow> rat \<Rightarrow> rat \<Rightarrow> risk_factor list" where
  "appended_factors attendance fees_due attempts previous_avg current_avg fee_risk attempts_risk =
     (if 0 < calculate_attendance_risk attendance then
        [\<lparr>factor = ''Attendance'',
          fvalue = [Fmt_float attendance, Lit ''% (below 75%)''],
          risk_contribution = calculate_attendance_risk attendance * weights_attendance,
          severity = (if attendance < 50 then High
                      else if attendance < 65 then Medium else Low)\<rparr>]
      else []) @
     (if 0 < calculate_score_trend_risk previous_avg current_avg then
        [\<lparr>factor = ''Test Score Trend'',
          fvalue = [Lit ''Dropped by '', Fmt_float1 (previous_avg - current_avg), Lit '' points''],
          risk_contribution =
            calculate_score_trend_risk previous_avg current_avg * weights_score_trend,
          severity = (if 15 < previous_avg - current_avg then High
                      else if 8 < previous_avg - current_avg then Medium else Low)\<rparr>]
      else []) @
     (if 0 < fee_risk then
        [\<lparr>factor = ''Fee Payment'',
          fvalue = [Fmt_int fees_due, Lit '' days overdue''],
          risk_contribution = fee_risk * weights_fees,
          severity = (if 90 < fees_due then High
                      else if 30 < fees_due then Medium else Low)\<rparr>]
      else []) @
     (if 0 < attempts_risk then
        [\<lparr>factor = ''Subject Attempts'',
          fvalue = [Fmt_int attempts, Lit '' attempts''],
          risk_contribution = attempts_risk * weights_attempts,
          severity = (if 4 \<le> attempts then High
                      else if 3 \<le> attempts then Medium else Low)\<rparr>]
      else [])"

section \<open>Reading the record: success and failure\<close>

lemmas weight_defs = weights_attendance_def weights_score_trend_def weights_fees_def
  weights_attempts_def

lemmas threshold_defs = thresholds_high_def thresholds_medium_def

lemmas risk_defs = calculate_attendance_risk_def calculate_score_trend_risk_def

lemmas overflow_defs = float_overflows_def float_limit_def

lemma calculate_fee_risk_cases:
  "calculate_fee_risk f =
     (if float_overflows (of_int f / 90)
      then Inl (OverflowError ''integer division result too large for a float'')
      else Inr (min (of_int f / 90) 1))"
  by (simp add: calculate_fee_risk_def int_truediv_def bind_err_def)

lemma calculate_attempts_risk_cases:
  "calculate_attempts_risk n =
     (if n \<le> 1 then Inr 0
      else if float_overflows (of_int (n - 1) / 4)
      then Inl (OverflowError ''integer division result too large for a float'')
      else Inr (min (of_int (n - 1) / 4) 1))"
  by (simp add: calculate_attempts_risk_def int_truediv_def bind_err_def)

lemma small_fee_risk:
  assumes "\<bar>f\<bar> \<le> 1000"
  shows "calculate_fee_risk f = Inr (min (of_int f / 90) 1)"
proof -
  have "\<bar>of_int f / 90 :: rat\<bar> \<le> 1000 / 90"
    using assms by (simp add: divide_right_mono)
  moreover have "(1000 / 90 :: rat) < float_limit"
    by (simp add: float_limit_def)
  ultimately have "\<not> float_overflows (of_int f / 90)"
    unfolding float_overflows_def by linarith
  then show ?thesis by (simp add: calculate_fee_risk_cases)
qed

lemma small_attempts_risk:
  assumes "\<bar>n\<bar> \<le> 1000"
  shows "calculate_attempts_risk n = Inr (if n \<le> 1 then 0 else min (of_int (n - 1) / 4) 1)"
proof -
  have "\<bar>of_int (n - 1) / 4 :: rat\<bar> \<le> 1001 / 4"
    using assms by (simp add: divide_right_mono)
  moreover have "(1001 / 4 :: rat) < float_limit"
    by (simp add: float_limit_def)
  ultimately have "\<not> float_overflows (of_int (n - 1) / 4)"
    unfolding float_overflows_def by linarith
  then show ?thesis by (simp add: calculate_attempts_risk_cases)
qed

lemma fee_risk_not_caught: "calculate_fee_risk f = Inl e \<Longrightarrow> \<not> caught e"
  by (auto simp: calculate_fee_risk_cases split: if_splits)

lemma attempts_risk_not_caught: "calculate_attempts_risk n = Inl e \<Longrightarrow> \<not> caught e"
  by (auto simp: calculate_attempts_risk_cases split: if_splits)

lemma extract_fields_Inr_iff:
  "extract_fields B d = Inr (a, f, n, p, c) \<longleftrightarrow>
     py_float B (dict_get d ''attendance_percent'' (PInt 0)) = Inr a \<and>
     py_int B (dict_get d ''fees_due_days'' (PInt 0)) = Inr f \<and>
     py_int B (dict_get d ''attempts_in_subject_X'' (PInt 1)) = Inr n \<and>
     py_float B (dict_get d ''previous_3_tests_avg'' (PInt 0)) = Inr p \<and>
     py_float B (dict_get d ''last_3_tests_avg'' (PInt 0)) = Inr c"
  by (auto simp: extract_fields_def bind_err_def split: sum.splits)

lemma try_block_cases [case_names conversion fee attempts ok]:
  obtains e where "extract_fields B d = Inl e"
  | a f n p c e where "extract_fields B d = Inr (a, f, n, p, c)"
      and "calculate_fee_risk f = Inl e"
  | a f n p c fr e where "extract_fields B d = Inr (a, f, n, p, c)"
      and "calculate_fee_risk f = Inr fr" and "calculate_attempts_risk n = Inl e"
  | a f n p c fr tr where "extract_fields B d = Inr (a, f, n, p, c)"
      and "calculate_fee_risk f = Inr fr" and "calculate_attempts_risk n = Inr tr"
proof (cases "extract_fields B d")
  case (Inl e)
  then show ?thesis by (rule that(1))
next
  case (Inr t)
  obtain a f n p c where t: "t = (a, f, n, p, c)" by (cases t) auto
  note e = Inr [unfolded t]
  show ?thesis
  proof (cases "calculate_fee_risk f")
    case (Inl x)
    with e show ?thesis by (rule that(2))
  next
    case fr: (Inr fr)
    show ?thesis
    proof (cases "calculate_attempts_risk n")
      case (Inl x)
      with e fr show ?thesis by (rule that(3))
    next
      case (Inr tr)
      with e fr show ?thesis by (rule that(4))
    qed
  qed
qed

lemma generate_recommendations_ok:
  assumes "extract_fields B d = Inr (a, f, n, p, c)"
  shows "\<exists>recs. generate_recommendations B d rfs = Inr recs"
  using assms unfolding extract_fields_Inr_iff
  by (simp add: generate_recommendations_def bind_err_def Let_def)

lemma bind_generate_recommendations:
  assumes "extract_fields B d = Inr t"
  shows "bind_err (generate_recommendations B d rfs) k =
         k (projr (generate_recommendations B d rfs))"
proof -
  obtain a f n p c where "t = (a, f, n, p, c)" by (cases t) auto
  with assms generate_recommendations_ok [of B d a f n p c rfs]
  obtain recs where "generate_recommendations B d rfs = Inr recs" by auto
  then show ?thesis by (simp add: bind_err_def)
qed

lemma py_round_zero: "py_round 0 n = 0"
  by (simp add: py_round_def round_half_even_def)

lemma if_snoc: "(if b then xs @ [x] else xs) = xs @ (if b then [x] else [])"
  by simp

section \<open>The four outcomes of \<^verbatim>\<open>calculate_risk\<close>\<close>

lemma calculate_risk_Inr:
  assumes "extract_fields B d = Inr (a, f, n, p, c)"
    and "calculate_fee_risk f = Inr fr" and "calculate_attempts_risk n = Inr tr"
  shows "calculate_risk B d = Inr
     (let score = weights_attendance * calculate_attendance_risk a +
                  weights_score_trend * calculate_score_trend_risk p c +
                  weights_fees * fr +
                  weights_attempts * tr;
          lvl = (if thresholds_high \<le> score then High
                 else if thresholds_medium \<le> score then Medium else Low)
      in \<lparr>risk_score = score, risk_level = lvl, risk_color = colors lvl, error = None\<rparr>)"
  using assms by (simp add: calculate_risk_def bind_err_def Let_def)

lemma calculate_risk_Inl:
  assumes "extract_fields B d = Inl e"
  shows "calculate_risk B d =
     (if caught e then
        Inr \<lparr>risk_score = 0, risk_level = Low, risk_color = ''success'',
             error = Some (''Data processing error: '' @ str_exc e)\<rparr>
      else Inl e)"
  using assms by (simp add: calculate_risk_def bind_err_def)

lemma calculate_risk_fee_Inl:
  assumes "extract_fields B d = Inr (a, f, n, p, c)" and "calculate_fee_risk f = Inl e"
  shows "calculate_risk B d = Inl e"
  using assms fee_risk_not_caught [OF assms(2)]
  by (simp add: calculate_risk_def bind_err_def Let_def)

lemma calculate_risk_attempts_Inl:
  assumes "extract_fields B d = Inr (a, f, n, p, c)"
    and "calculate_fee_risk f = Inr fr" and "calculate_attempts_risk n = Inl e"
  shows "calculate_risk B d = Inl e"
  using assms attempts_risk_not_caught [OF assms(3)]
  by (simp add: calculate_risk_def bind_err_def Let_def)

section \<open>The four outcomes of \<^verbatim>\<open>calculate_detailed_risk\<close>\<close>

lemma calculate_detailed_risk_Inl:
  assumes "extract_fields B d = Inl e"
  shows "calculate_detailed_risk B d =
     (if caught e then
        Inr \<lparr>risk_score = 0, risk_level = Low, risk_color = ''success'',
             error = Some (''Detailed analysis error: '' @ str_exc e),
             risk_components = None, weighted_components = None,
             risk_factors = [], top_reasons = [], recommendations = []\<rparr>
      else Inl e)"
  using assms by (simp add: calculate_detailed_risk_def bind_err_def)

lemma calculate_detailed_risk_fee_Inl:
  assumes "extract_fields B d = Inr (a, f, n, p, c)" and "calculate_fee_risk f = Inl e"
  shows "calculate_detailed_risk B d = Inl e"
  using assms fee_risk_not_caught [OF assms(2)]
  by (simp add: calculate_detailed_risk_def bind_err_def Let_def)

lemma calculate_detailed_risk_attempts_Inl:
  assumes "extract_fields B d = Inr (a, f, n, p, c)"
    and "calculate_fee_risk f = Inr fr" and "calculate_attempts_risk n = Inl e"
  shows "calculate_detailed_risk B d = Inl e"
  using assms attempts_risk_not_caught [OF assms(3)]
  by (simp add: calculate_detailed_risk_def bind_err_def Let_def)

lemma calculate_detailed_risk_Inr:
  assumes "extract_fields B d = Inr (a, f, n, p, c)"
    and "calculate_fee_risk f = Inr fr" and "calculate_attempts_risk n = Inr tr"
  shows "calculate_detailed_risk B d = Inr
     \<lparr>risk_score = py_round (risk_score (projr (calculate_risk B d))) 3,
      risk_level = risk_level (projr (calculate_risk B d)),
      risk_color = risk_color (projr (calculate_risk B d)),
      error = None,
      risk_components = Some
        \<lparr>attendance_c = py_round (calculate_attendance_risk a) 3,
         score_trend_c = py_round (calculate_score_trend_risk p c) 3,
         fee_c = py_round fr 3,
         attempts_c = py_round tr 3\<rparr>,
      weighted_components = Some
        \<lparr>attendance_c = py_round (calculate_attendance_risk a * weights_attendance) 3,
         score_trend_c = py_round (calculate_score_trend_risk p c * weights_score_trend) 3,
         fee_c = py_round (fr * weights_fees) 3,
         attempts_c = py_round (tr * weights_attempts) 3\<rparr>,
      risk_factors = sort_by_contribution (appended_factors a f n p c fr tr),
      top_reasons = take 2 (sort_by_contribution (appended_factors a f n p c fr tr)),
      recommendations =
        projr (generate_recommendations B d
                 (sort_by_contribution (appended_factors a f n p c fr tr)))\<rparr>"
proof -
  have top: "(if 2 \<le> length xs then take 2 xs else xs) = take 2 xs" for xs :: "risk_factor list"
    by simp
  show ?thesis
    unfolding calculate_detailed_risk_def calculate_risk_def assms(1)
    by (simp add: assms(2,3) bind_err_def [of "Inr x" for x]
        bind_generate_recommendations [OF assms(1)]
        Let_def if_snoc top appended_factors_def
        split del: if_split cong: if_cong)
qed

lemma calculate_risk_small:
  assumes "extract_fields B d = Inr (a, f, n, p, c)" and "\<bar>f\<bar> \<le> 1000" and "\<bar>n\<bar> \<le> 1000"
  shows "calculate_risk B d = Inr
     (let score = weights_attendance * calculate_attendance_risk a +
                  weights_score_trend * calculate_score_trend_risk p c +
                  weights_fees * min (of_int f / 90) 1 +
                  weights_attempts * (if n \<le> 1 then 0 else min (of_int (n - 1) / 4) 1);
          lvl = (if thresholds_high \<le> score then High
                 else if thresholds_medium \<le> score then Medium else Low)
      in \<lparr>risk_score = score, risk_level = lvl, risk_color = colors lvl, error = None\<rparr>)"
  by (rule calculate_risk_Inr [OF assms(1) small_fee_risk [OF assms(2)]
        small_attempts_risk [OF assms(3)]])

lemma detailed_summary_agree:
  "calculate_detailed_risk B d = Inl e \<longleftrightarrow> calculate_risk B d = Inl e"
  "returned risk_level (calculate_detailed_risk B d) = returned risk_level (calculate_risk B d)"
  "returned risk_color (calculate_detailed_risk B d) = returned risk_color (calculate_risk B d)"
  "returned risk_score (calculate_detailed_risk B d) =
     returned (\<lambda>s. py_round (risk_score s) 3) (calculate_risk B d)"
proof -
  have "(calculate_detailed_risk B d = Inl e \<longleftrightarrow> calculate_risk B d = Inl e) \<and>
    returned risk_level (calculate_detailed_risk B d) = returned risk_level (calculate_risk B d) \<and>
    returned risk_color (calculate_detailed_risk B d) = returned risk_color (calculate_risk B d) \<and>
    returned risk_score (calculate_detailed_risk B d) =
      returned (\<lambda>s. py_round (risk_score s) 3) (calculate_risk B d)"
  proof (cases B d rule: try_block_cases)
    case (conversion x)
    show ?thesis
      by (simp add: calculate_detailed_risk_Inl [OF conversion] calculate_risk_Inl [OF conversion]
          returned_def py_round_zero)
  next
    case (fee a f n p c x)
    show ?thesis
      by (simp add: calculate_detailed_risk_fee_Inl [OF fee] calculate_risk_fee_Inl [OF fee]
          returned_def)
  next
    case (attempts a f n p c fr x)
    show ?thesis
      by (simp add: calculate_detailed_risk_attempts_Inl [OF attempts]
          calculate_risk_attempts_Inl [OF attempts] returned_def)
  next
    case (ok a f n p c fr tr)
    show ?thesis
      unfolding calculate_detailed_risk_Inr [OF ok]
      by (simp add: calculate_risk_Inr [OF ok] returned_def)
  qed
  then show
    "calculate_detailed_risk B d = Inl e \<longleftrightarrow> calculate_risk B d = Inl e"
    "returned risk_level (calculate_detailed_risk B d) = returned risk_level (calculate_risk B d)"
    "returned risk_color (calculate_detailed_risk B d) = returned risk_color (calculate_risk B d)"
    "returned risk_score (calculate_detailed_risk B d) =
       returned (\<lambda>s. py_round (risk_score s) 3) (calculate_risk B d)"
    by simp_all
qed

section \<open>Concrete records\<close>

lemma extract_attendance_40:
  "extract_fields plain_literals [''attendance_percent'' \<mapsto> PFloat 40] = Inr (40, 0, 1, 0, 0)"
  by (simp add: extract_fields_def bind_err_def dict_get_def overflow_defs)

lemma summary_attendance_40:
  "calculate_risk plain_literals [''attendance_percent'' \<mapsto> PFloat 40] =
     Inr \<lparr>risk_score = 7 / 30, risk_level = Low, risk_color = ''success'', error = None\<rparr>"
  by (simp add: calculate_risk_small [OF extract_attendance_40] risk_defs weight_defs
      threshold_defs)

lemma py_round_7_30: "py_round (7 / 30) 3 = 233 / 1000"
  by code_simp

section \<open>Agreement of the summary and the detailed assessment\<close>

text \<open>
  Claim C1, as stated: \<^verbatim>\<open>calculate_detailed_risk\<close> and \<^verbatim>\<open>calculate_risk\<close> return the same
  \<open>risk_score\<close>. For the record \<^verbatim>\<open>{'attendance_percent': 40.0}\<close> the summary returns the
  unrounded weighted sum \<open>7/30\<close> (0.2333...), the detailed assessment returns
  \<^verbatim>\<open>round(risk_score, 3)\<close>, which is \<open>0.233\<close>.
\<close>

theorem explain_score_counterexample:
  "returned risk_score (calculate_risk plain_literals [''attendance_percent'' \<mapsto> PFloat 40])
     = Some (7 / 30) \<and>
   returned risk_score
     (calculate_detailed_risk plain_literals [''attendance_percent'' \<mapsto> PFloat 40])
     = Some (233 / 1000) \<and>
   returned risk_score
     (calculate_detailed_risk plain_literals [''attendance_percent'' \<mapsto> PFloat 40]) \<noteq>
   returned risk_score (calculate_risk plain_literals [''attendance_percent'' \<mapsto> PFloat 40])"
  unfolding detailed_summary_agree(4) summary_attendance_40
  by (simp add: returned_def py_round_7_30)

text \<open>
  Claim C1, amended: for every record, the same exception leaves both functions or both
  return; they agree on \<open>risk_level\<close> and \<open>risk_color\<close>, and the \<open>risk_score\<close> of the
  detailed assessment is the \<open>risk_score\<close> of the summary rounded to three decimals.
\<close>

theorem explain_agrees_with_score:
  "(calculate_detailed_risk B student_data = Inl e \<longleftrightarrow> calculate_risk B student_data = Inl e) \<and>
   returned risk_level (calculate_detailed_risk B student_data) =
     returned risk_level (calculate_risk B student_data) \<and>
   returned risk_color (calculate_detailed_risk B student_data) =
     returned risk_color (calculate_risk B student_data) \<and>
   returned risk_score (calculate_detailed_risk B student_data) =
     returned (\<lambda>s. py_round (risk_score s) 3) (calculate_risk B student_data)"
  by (simp add: detailed_summary_agree)

section \<open>Component risks and the score of a valid record\<close>

lemma attendance_risk_bounds:
  "0 \<le> a \<Longrightarrow> 0 \<le> calculate_attendance_risk a \<and> calculate_attendance_risk a \<le> 1"
  by (simp add: calculate_attendance_risk_def)

lemma score_trend_risk_bounds:
  "0 \<le> calculate_score_trend_risk p c \<and> calculate_score_trend_risk p c \<le> 1"
  by (simp add: calculate_score_trend_risk_def Let_def)

lemma fee_risk_bounds:
  "0 \<le> f \<Longrightarrow> calculate_fee_risk f = Inr fr \<Longrightarrow> 0 \<le> fr \<and> fr \<le> 1"
  by (auto simp: calculate_fee_risk_cases split: if_splits)

lemma attempts_risk_bounds:
  "calculate_attempts_risk n = Inr tr \<Longrightarrow> 0 \<le> tr \<and> tr \<le> 1"
  by (auto simp: calculate_attempts_risk_cases split: if_splits)

lemma weighted_sum_bounds:
  fixes r1 r2 r3 r4 :: rat
  assumes "0 \<le> r1" "r1 \<le> 1" "0 \<le> r2" "r2 \<le> 1" "0 \<le> r3" "r3 \<le> 1" "0 \<le> r4" "r4 \<le> 1"
  shows "0 \<le> weights_attendance * r1 + weights_score_trend * r2 + weights_fees * r3 +
               weights_attempts * r4"
    and "weights_attendance * r1 + weights_score_trend * r2 + weights_fees * r3 +
               weights_attempts * r4 \<le> 1"
  using assms by (simp_all add: weight_defs)

lemma extract_half_fees_huge:
  "extract_fields plain_literals
     [''attendance_percent'' \<mapsto> PFloat 50, ''fees_due_days'' \<mapsto> PInt (10 ^ 400),
      ''attempts_in_subject_X'' \<mapsto> PInt 1, ''previous_3_tests_avg'' \<mapsto> PFloat 60,
      ''last_3_tests_avg'' \<mapsto> PFloat 60] = Inr (50, 10 ^ 400, 1, 60, 60)"
  by (simp add: extract_fields_def bind_err_def dict_get_def)

lemma fee_risk_huge:
  "calculate_fee_risk (10 ^ 400) =
     Inl (OverflowError ''integer division result too large for a float'')"
  by (simp add: calculate_fee_risk_cases overflow_defs)

text \<open>
  Claim C2, as stated: for every valid record (attendance in \<open>[0, 100]\<close>, \<open>fees_due_days\<close>
  an integer \<open>\<ge> 0\<close>, attempts an integer \<open>\<ge> 1\<close>, numeric test averages) the component
  risks and the \<open>risk_score\<close> returned by \<^verbatim>\<open>calculate_risk\<close> lie in \<open>[0, 1]\<close>. The record
  with attendance 50.0, \<open>fees_due_days = 10**400\<close>, one attempt and averages 60.0 and 60.0
  is valid; for it \<^verbatim>\<open>fees_due_days / 90\<close> raises \<^verbatim>\<open>OverflowError\<close>, which the handler does
  not catch, so there is no fee risk and \<^verbatim>\<open>calculate_risk\<close> returns no \<open>risk_score\<close>.
\<close>

theorem valid_record_overflow_counterexample:
  "extract_fields plain_literals
     [''attendance_percent'' \<mapsto> PFloat 50, ''fees_due_days'' \<mapsto> PInt (10 ^ 400),
      ''attempts_in_subject_X'' \<mapsto> PInt 1, ''previous_3_tests_avg'' \<mapsto> PFloat 60,
      ''last_3_tests_avg'' \<mapsto> PFloat 60] = Inr (50, 10 ^ 400, 1, 60, 60) \<and>
   calculate_fee_risk (10 ^ 400) =
     Inl (OverflowError ''integer division result too large for a float'') \<and>
   calculate_risk plain_literals
     [''attendance_percent'' \<mapsto> PFloat 50, ''fees_due_days'' \<mapsto> PInt (10 ^ 400),
      ''attempts_in_subject_X'' \<mapsto> PInt 1, ''previous_3_tests_avg'' \<mapsto> PFloat 60,
      ''last_3_tests_avg'' \<mapsto> PFloat 60] =
     Inl (OverflowError ''integer division result too large for a float'') \<and>
   returned risk_score (calculate_risk plain_literals
     [''attendance_percent'' \<mapsto> PFloat 50, ''fees_due_days'' \<mapsto> PInt (10 ^ 400),
      ''attempts_in_subject_X'' \<mapsto> PInt 1, ''previous_3_tests_avg'' \<mapsto> PFloat 60,
      ''last_3_tests_avg'' \<mapsto> PFloat 60]) = None"
  unfolding extract_half_fees_huge fee_risk_huge
    calculate_risk_fee_Inl [OF extract_half_fees_huge fee_risk_huge]
  by (simp add: returned_def)

text \<open>
  Claim C2, amended: for a record whose five fields convert, with \<open>attendance_percent\<close> in
  \<open>[0, 100]\<close>, \<open>fees_due_days \<ge> 0\<close> and \<open>attempts_in_subject_X \<ge> 1\<close>, and such that neither
  \<open>fees_due_days / 90\<close> nor \<open>(attempts - 1) / 4\<close> is beyond the range of a float, each of
  the four component risks lies in \<open>[0, 1]\<close>, and \<^verbatim>\<open>calculate_risk\<close> returns a \<open>risk_score\<close>
  in \<open>[0, 1]\<close>. When one of the two quotients is beyond that range, \<^verbatim>\<open>calculate_risk\<close>
  raises \<^verbatim>\<open>OverflowError\<close>.
\<close>

theorem valid_record_risks_in_unit_interval:
  assumes "extract_fields B student_data =
             Inr (attendance, fees_due, attempts, previous_avg, current_avg)"
    and "0 \<le> attendance" and "attendance \<le> 100" and "0 \<le> fees_due" and "1 \<le> attempts"
  shows "(\<not> float_overflows (of_int fees_due / 90) \<and>
          \<not> float_overflows (of_int (attempts - 1) / 4) \<longrightarrow>
          (\<exists>fee_risk attempts_risk r.
             calculate_fee_risk fees_due = Inr fee_risk \<and>
             calculate_attempts_risk attempts = Inr attempts_risk \<and>
             calculate_risk B student_data = Inr r \<and>
             0 \<le> calculate_attendance_risk attendance \<and>
             calculate_attendance_risk attendance \<le> 1 \<and>
             0 \<le> calculate_score_trend_risk previous_avg current_avg \<and>
             calculate_score_trend_risk previous_avg current_avg \<le> 1 \<and>
             0 \<le> fee_risk \<and> fee_risk \<le> 1 \<and>
             0 \<le> attempts_risk \<and> attempts_risk \<le> 1 \<and>
             0 \<le> risk_score r \<and> risk_score r \<le> 1)) \<and>
         (float_overflows (of_int fees_due / 90) \<or>
          float_overflows (of_int (attempts - 1) / 4) \<longrightarrow>
          calculate_risk B student_data =
            Inl (OverflowError ''integer division result too large for a float''))"
proof (intro conjI impI)
  assume "\<not> float_overflows (of_int fees_due / 90) \<and>
          \<not> float_overflows (of_int (attempts - 1) / 4)"
  then have fr: "calculate_fee_risk fees_due = Inr (min (of_int fees_due / 90) 1)"
    and tr: "calculate_attempts_risk attempts =
               Inr (if attempts \<le> 1 then 0 else min (of_int (attempts - 1) / 4) 1)"
    by (simp_all add: calculate_fee_risk_cases calculate_attempts_risk_cases)
  define r where "r = projr (calculate_risk B student_data)"
  have r: "calculate_risk B student_data = Inr r"
    by (simp add: r_def calculate_risk_Inr [OF assms(1) fr tr])
  have score: "risk_score r =
      weights_attendance * calculate_attendance_risk attendance +
      weights_score_trend * calculate_score_trend_risk previous_avg current_avg +
      weights_fees * min (of_int fees_due / 90) 1 +
      weights_attempts * (if attempts \<le> 1 then 0 else min (of_int (attempts - 1) / 4) 1)"
    by (simp add: r_def calculate_risk_Inr [OF assms(1) fr tr] Let_def)
  note a = attendance_risk_bounds [OF assms(2)]
  note s = score_trend_risk_bounds [of previous_avg current_avg]
  note f = fee_risk_bounds [OF assms(4) fr]
  note n = attempts_risk_bounds [OF tr]
  have "0 \<le> risk_score r"
    unfolding score using a s f n by (intro weighted_sum_bounds(1)) simp_all
  moreover have "risk_score r \<le> 1"
    unfolding score using a s f n by (intro weighted_sum_bounds(2)) simp_all
  ultimately show "\<exists>fee_risk attempts_risk r.
             calculate_fee_risk fees_due = Inr fee_risk \<and>
             calculate_attempts_risk attempts = Inr attempts_risk \<and>
             calculate_risk B student_data = Inr r \<and>
             0 \<le> calculate_attendance_risk attendance \<and>
             calculate_attendance_risk attendance \<le> 1 \<and>
             0 \<le> calculate_score_trend_risk previous_avg current_avg \<and>
             calculate_score_trend_risk previous_avg current_avg \<le> 1 \<and>
             0 \<le> fee_risk \<and> fee_risk \<le> 1 \<and>
             0 \<le> attempts_risk \<and> attempts_risk \<le> 1 \<and>
             0 \<le> risk_score r \<and> risk_score r \<le> 1"
    using fr tr r a s f n by blast
next
  assume ov: "float_overflows (of_int fees_due / 90) \<or>
              float_overflows (of_int (attempts - 1) / 4)"
  show "calculate_risk B student_data =
          Inl (OverflowError ''integer division result too large for a float'')"
  proof (cases "float_overflows (of_int fees_due / 90)")
    case True
    then have "calculate_fee_risk fees_due =
        Inl (OverflowError ''integer division result too large for a float'')"
      by (simp add: calculate_fee_risk_cases)
    then show ?thesis by (rule calculate_risk_fee_Inl [OF assms(1)])
  next
    case False
    then have fr: "calculate_fee_risk fees_due = Inr (min (of_int fees_due / 90) 1)"
      by (simp add: calculate_fee_risk_cases)
    from False ov have t: "float_overflows (of_int (attempts - 1) / 4)" by simp
    have "\<not> attempts \<le> 1"
    proof
      assume "attempts \<le> 1"
      with assms(5) have "attempts = 1" by simp
      with t show False by (simp add: overflow_defs)
    qed
    with t have "calculate_attempts_risk attempts =
        Inl (OverflowError ''integer division result too large for a float'')"
      by (simp add: calculate_attempts_risk_cases)
    then show ?thesis by (rule calculate_risk_attempts_Inl [OF assms(1) fr])
  qed
qed

lemma extract_spec_example:
  "extract_fields plain_literals
     [''attendance_percent'' \<mapsto> PInt 40, ''fees_due_days'' \<mapsto> PInt 100,
      ''attempts_in_subject_X'' \<mapsto> PInt 5, ''previous_3_tests_avg'' \<mapsto> PInt 80,
      ''last_3_tests_avg'' \<mapsto> PInt 55] = Inr (40, 100, 5, 80, 55)"
  by (simp add: extract_fields_def bind_err_def dict_get_def overflow_defs)

lemma risk_values_spec_example:
  "calculate_attendance_risk 40 = 7 / 15"
  "calculate_score_trend_risk 80 55 = 1 / 4"
  "calculate_fee_risk 100 = Inr 1"
  "calculate_attempts_risk 5 = Inr 1"
  using small_fee_risk [of 100] small_attempts_risk [of 5]
  by (simp_all add: risk_defs)

lemma summary_spec_example:
  "calculate_risk plain_literals
     [''attendance_percent'' \<mapsto> PInt 40, ''fees_due_days'' \<mapsto> PInt 100,
      ''attempts_in_subject_X'' \<mapsto> PInt 5, ''previous_3_tests_avg'' \<mapsto> PInt 80,
      ''last_3_tests_avg'' \<mapsto> PInt 55] =
     Inr \<lparr>risk_score = 61 / 120, risk_level = Medium, risk_color = ''warning'', error = None\<rparr>"
  by (simp add: calculate_risk_Inr [OF extract_spec_example risk_values_spec_example(3,4)]
      risk_values_spec_example weight_defs threshold_defs)

text \<open>
  The record of the end-to-end example: attendance 40, fees 100 days overdue, 5 attempts,
  averages 80 then 55; and the record above with \<open>fees_due_days = 10**400\<close>.
\<close>

theorem valid_record_risks_in_unit_interval_witness:
  "extract_fields plain_literals
     [''attendance_percent'' \<mapsto> PInt 40, ''fees_due_days'' \<mapsto> PInt 100,
      ''attempts_in_subject_X'' \<mapsto> PInt 5, ''previous_3_tests_avg'' \<mapsto> PInt 80,
      ''last_3_tests_avg'' \<mapsto> PInt 55] = Inr (40, 100, 5, 80, 55) \<and>
   (0::rat) \<le> 40 \<and> (40::rat) \<le> 100 \<and> (0::int) \<le> 100 \<and> (1::int) \<le> 5 \<and>
   \<not> float_overflows (of_int 100 / 90) \<and> \<not> float_overflows (of_int (5 - 1) / 4) \<and>
   calculate_attendance_risk 40 = 7 / 15 \<and>
   calculate_score_trend_risk 80 55 = 1 / 4 \<and>
   calculate_fee_risk 100 = Inr 1 \<and>
   calculate_attempts_risk 5 = Inr 1 \<and>
   calculate_risk plain_literals
     [''attendance_percent'' \<mapsto> PInt 40, ''fees_due_days'' \<mapsto> PInt 100,
      ''attempts_in_subject_X'' \<mapsto> PInt 5, ''previous_3_tests_avg'' \<mapsto> PInt 80,
      ''last_3_tests_avg'' \<mapsto> PInt 55] =
     Inr \<lparr>risk_score = 61 / 120, risk_level = Medium, risk_color = ''warning'', error = None\<rparr> \<and>
   (0::rat) \<le> 61 / 120 \<and> (61 / 120 :: rat) \<le> 1 \<and>
   (0::rat) \<le> 50 \<and> (50::rat) \<le> 100 \<and> (0::int) \<le> 10 ^ 400 \<and> (1::int) \<le> 1 \<and>
   float_overflows (of_int (10 ^ 400) / 90) \<and>
   calculate_risk plain_literals
     [''attendance_percent'' \<mapsto> PFloat 50, ''fees_due_days'' \<mapsto> PInt (10 ^ 400),
      ''attempts_in_subject_X'' \<mapsto> PInt 1, ''previous_3_tests_avg'' \<mapsto> PFloat 60,
      ''last_3_tests_avg'' \<mapsto> PFloat 60] =
     Inl (OverflowError ''integer division result too large for a float'')"
  using valid_record_risks_in_unit_interval [OF extract_spec_example]
    valid_record_risks_in_unit_interval [OF extract_half_fees_huge]
  by (simp add: extract_spec_example summary_spec_example risk_values_spec_example
      overflow_defs)

section \<open>Records whose fields do not convert\<close>

lemma conversion_errors:
  "py_float B (PStr s) = Inl e \<Longrightarrow> caught e"
  "py_float B PNone = Inl e \<Longrightarrow> caught e"
  "py_int B (PStr s) = Inl e \<Longrightarrow> caught e"
  "py_int B PNone = Inl e \<Longrightarrow> caught e"
  "py_float B (PInt i) = Inl e \<Longrightarrow> \<not> caught e"
  "py_float B (PFloat x) \<noteq> Inl e"
  "py_int B (PInt i) \<noteq> Inl e"
  "py_int B (PFloat x) \<noteq> Inl e"
  by (auto split: option.splits if_splits)

lemma extract_overflow_then_string:
  "extract_fields plain_literals
     [''attendance_percent'' \<mapsto> PInt (10 ^ 309), ''fees_due_days'' \<mapsto> PStr ''abc''] =
     Inl (OverflowError ''int too large to convert to float'')"
  by (simp add: extract_fields_def bind_err_def dict_get_def overflow_defs)

lemma plain_int_abc: "plain_int ''abc'' = None"
  by (simp add: plain_int_def split_sign_def all_digits_def)

text \<open>
  Claim C3, as stated: for every record with a field that fails conversion,
  \<^verbatim>\<open>calculate_risk\<close> does not raise and returns the default. In the record
  \<^verbatim>\<open>{'attendance_percent': 10**309, 'fees_due_days': 'abc'}\<close> the field \<open>fees_due_days\<close> is
  not a number and \<^verbatim>\<open>int('abc')\<close> raises \<^verbatim>\<open>ValueError\<close>; but \<open>attendance_percent\<close> is
  converted first, \<^verbatim>\<open>float(10**309)\<close> raises \<^verbatim>\<open>OverflowError\<close>, and that exception leaves
  both \<^verbatim>\<open>calculate_risk\<close> and \<^verbatim>\<open>calculate_detailed_risk\<close>.
\<close>

theorem malformed_input_overflow_counterexample:
  "py_int plain_literals
     (dict_get [''attendance_percent'' \<mapsto> PInt (10 ^ 309), ''fees_due_days'' \<mapsto> PStr ''abc'']
        ''fees_due_days'' (PInt 0)) =
     Inl (ValueError (''invalid literal for int() with base 10: '' @
                      [CHR 0x27] @ ''abc'' @ [CHR 0x27])) \<and>
   calculate_risk plain_literals
     [''attendance_percent'' \<mapsto> PInt (10 ^ 309), ''fees_due_days'' \<mapsto> PStr ''abc''] =
     Inl (OverflowError ''int too large to convert to float'') \<and>
   calculate_detailed_risk plain_literals
     [''attendance_percent'' \<mapsto> PInt (10 ^ 309), ''fees_due_days'' \<mapsto> PStr ''abc''] =
     Inl (OverflowError ''int too large to convert to float'')"
  unfolding calculate_risk_Inl [OF extract_overflow_then_string]
    calculate_detailed_risk_Inl [OF extract_overflow_then_string]
  by (simp add: dict_get_def plain_literals_def plain_int_abc plain_repr_def)

text \<open>
  Claim C3, amended: when the first of the five conversions of the record's fields that
  raises, raises \<^verbatim>\<open>ValueError\<close> or \<^verbatim>\<open>TypeError\<close> (a string that is not a number, or a
  value of the wrong type), \<^verbatim>\<open>calculate_risk\<close> returns score 0, level Low, colour success
  and an error string, and \<^verbatim>\<open>calculate_detailed_risk\<close> returns the same three values, an
  error string and empty \<open>risk_factors\<close>, \<open>top_reasons\<close> and \<open>recommendations\<close>. Both
  error strings are a fixed non-empty prefix followed by the message of the exception.
  When it raises \<^verbatim>\<open>OverflowError\<close> (an integer too large for a float), that exception
  leaves both functions.
\<close>

theorem malformed_input_safe_default:
  assumes "extract_fields B student_data = Inl e"
  shows "(caught e \<longrightarrow>
           calculate_risk B student_data =
             Inr \<lparr>risk_score = 0, risk_level = Low, risk_color = ''success'',
                  error = Some (''Data processing error: '' @ str_exc e)\<rparr> \<and>
           calculate_detailed_risk B student_data =
             Inr \<lparr>risk_score = 0, risk_level = Low, risk_color = ''success'',
                  error = Some (''Detailed analysis error: '' @ str_exc e),
                  risk_components = None, weighted_components = None,
                  risk_factors = [], top_reasons = [], recommendations = []\<rparr> \<and>
           ''Data processing error: '' @ str_exc e \<noteq> [] \<and>
           ''Detailed analysis error: '' @ str_exc e \<noteq> []) \<and>
         (\<not> caught e \<longrightarrow>
           calculate_risk B student_data = Inl e \<and>
           calculate_detailed_risk B student_data = Inl e) \<and>
         (caught e \<longleftrightarrow> (\<exists>m. e = ValueError m \<or> e = TypeError m))"
proof -
  have "caught e \<longleftrightarrow> (\<exists>m. e = ValueError m \<or> e = TypeError m)"
    by (cases e) simp_all
  then show ?thesis
    by (simp add: calculate_risk_Inl [OF assms] calculate_detailed_risk_Inl [OF assms])
qed

lemma plain_float_N_A: "plain_float ''N/A'' = None"
  by (simp add: plain_float_def split_sign_def all_digits_def)

lemma extract_N_A:
  "extract_fields plain_literals [''attendance_percent'' \<mapsto> PStr ''N/A''] =
     Inl (ValueError (''could not convert string to float: '' @
                      [CHR 0x27] @ ''N/A'' @ [CHR 0x27]))"
  by (simp add: extract_fields_def bind_err_def dict_get_def plain_literals_def plain_float_N_A
      plain_repr_def)

text \<open>
  The record \<^verbatim>\<open>{'attendance_percent': 'N/A'}\<close>, whose error message is
  \<^verbatim>\<open>could not convert string to float: 'N/A'\<close>, and the record
  \<^verbatim>\<open>{'attendance_percent': 10**309, 'fees_due_days': 'abc'}\<close>.
\<close>

theorem malformed_input_safe_default_witness:
  "extract_fields plain_literals [''attendance_percent'' \<mapsto> PStr ''N/A''] =
     Inl (ValueError (''could not convert string to float: '' @
                      [CHR 0x27] @ ''N/A'' @ [CHR 0x27])) \<and>
   caught (ValueError (''could not convert string to float: '' @
                       [CHR 0x27] @ ''N/A'' @ [CHR 0x27])) \<and>
   calculate_risk plain_literals [''attendance_percent'' \<mapsto> PStr ''N/A''] =
     Inr \<lparr>risk_score = 0, risk_level = Low, risk_color = ''success'',
          error = Some (''Data processing error: could not convert string to float: '' @
                        [CHR 0x27] @ ''N/A'' @ [CHR 0x27])\<rparr> \<and>
   calculate_detailed_risk plain_literals [''attendance_percent'' \<mapsto> PStr ''N/A''] =
     Inr \<lparr>risk_score = 0, risk_level = Low, risk_color = ''success'',
          error = Some (''Detailed analysis error: could not convert string to float: '' @
                        [CHR 0x27] @ ''N/A'' @ [CHR 0x27]),
          risk_components = None, weighted_components = None,
          risk_factors = [], top_reasons = [], recommendations = []\<rparr> \<and>
   extract_fields plain_literals
     [''attendance_percent'' \<mapsto> PInt (10 ^ 309), ''fees_due_days'' \<mapsto> PStr ''abc''] =
     Inl (OverflowError ''int too large to convert to float'') \<and>
   \<not> caught (OverflowError ''int too large to convert to float'') \<and>
   calculate_risk plain_literals
     [''attendance_percent'' \<mapsto> PInt (10 ^ 309), ''fees_due_days'' \<mapsto> PStr ''abc''] =
     Inl (OverflowError ''int too large to convert to float'') \<and>
   calculate_detailed_risk plain_literals
     [''attendance_percent'' \<mapsto> PInt (10 ^ 309), ''fees_due_days'' \<mapsto> PStr ''abc''] =
     Inl (OverflowError ''int too large to convert to float'')"
  using malformed_input_safe_default [OF extract_N_A]
    malformed_input_safe_default [OF extract_overflow_then_string]
  unfolding extract_N_A extract_overflow_then_string
  by simp

section \<open>The risk level as a step function of the score\<close>

lemma calculate_risk_level_cases:
  assumes "calculate_risk B d = Inr r"
  shows "(thresholds_high \<le> risk_score r \<longrightarrow> risk_level r = High) \<and>
   (thresholds_medium \<le> risk_score r \<and> risk_score r < thresholds_high \<longrightarrow>
      risk_level r = Medium) \<and>
   (risk_score r < thresholds_medium \<longrightarrow> risk_level r = Low) \<and>
   risk_color r = colors (risk_level r)"
proof (cases B d rule: try_block_cases)
  case (conversion e)
  with assms have "r = \<lparr>risk_score = 0, risk_level = Low, risk_color = ''success'',
             error = Some (''Data processing error: '' @ str_exc e)\<rparr>"
    by (simp add: calculate_risk_Inl [OF conversion] split: if_splits)
  then show ?thesis by (simp add: threshold_defs)
next
  case (fee a f n p c e)
  with assms show ?thesis by (simp add: calculate_risk_fee_Inl [OF fee])
next
  case (attempts a f n p c fr e)
  with assms show ?thesis by (simp add: calculate_risk_attempts_Inl [OF attempts])
next
  case (ok a f n p c fr tr)
  from assms have "r =
     (let score = weights_attendance * calculate_attendance_risk a +
                  weights_score_trend * calculate_score_trend_risk p c +
                  weights_fees * fr +
                  weights_attempts * tr;
          lvl = (if thresholds_high \<le> score then High
                 else if thresholds_medium \<le> score then Medium else Low)
      in \<lparr>risk_score = score, risk_level = lvl, risk_color = colors lvl, error = None\<rparr>)"
    unfolding calculate_risk_Inr [OF ok] by simp
  then show ?thesis by (simp add: Let_def threshold_defs)
qed

text \<open>
  Claim C7: in a result of \<^verbatim>\<open>calculate_risk\<close> a score of at least 0.70 gives High, a score
  in \<open>[0.40, 0.70)\<close> gives Medium, a score below 0.40 gives Low; the level never decreases
  when the score increases; the colour is the one the fixed map gives for the level.
\<close>

theorem risk_level_step_function:
  assumes "calculate_risk B d = Inr r"
  shows "(70 / 100 \<le> risk_score r \<longrightarrow> risk_level r = High) \<and>
   (40 / 100 \<le> risk_score r \<and> risk_score r < 70 / 100 \<longrightarrow> risk_level r = Medium) \<and>
   (risk_score r < 40 / 100 \<longrightarrow> risk_level r = Low) \<and>
   (calculate_risk B' d' = Inr r' \<and> risk_score r \<le> risk_score r' \<longrightarrow>
      level_rank (risk_level r) \<le> level_rank (risk_level r')) \<and>
   risk_color r = colors (risk_level r) \<and>
   colors High = ''danger'' \<and> colors Medium = ''warning'' \<and> colors Low = ''success''"
proof -
  note c = calculate_risk_level_cases [OF assms, unfolded threshold_defs]
  have mono: "calculate_risk B' d' = Inr r' \<and> risk_score r \<le> risk_score r' \<longrightarrow>
      level_rank (risk_level r) \<le> level_rank (risk_level r')"
  proof
    assume a: "calculate_risk B' d' = Inr r' \<and> risk_score r \<le> risk_score r'"
    then have le: "risk_score r \<le> risk_score r'" by simp
    from a have r': "calculate_risk B' d' = Inr r'" by simp
    note c' = calculate_risk_level_cases [OF r', unfolded threshold_defs]
    consider "risk_score r < 40 / 100"
      | "40 / 100 \<le> risk_score r" "risk_score r < 70 / 100"
      | "70 / 100 \<le> risk_score r"
      by linarith
    then show "level_rank (risk_level r) \<le> level_rank (risk_level r')"
    proof cases
      case 1
      with c have "risk_level r = Low" by simp
      then show ?thesis by simp
    next
      case 2
      with c have l: "risk_level r = Medium" by simp
      from 2 le have "40 / 100 \<le> risk_score r'" by linarith
      with c' have "risk_level r' = Medium \<or> risk_level r' = High"
        by (cases "risk_score r' < 70 / 100") simp_all
      with l show ?thesis by auto
    next
      case 3
      with c have l: "risk_level r = High" by simp
      from 3 le have "70 / 100 \<le> risk_score r'" by linarith
      with c' have "risk_level r' = High" by simp
      with l show ?thesis by simp
    qed
  qed
  from c mono show ?thesis by simp
qed

lemma extract_boundary_high:
  "extract_fields plain_literals
     [''attendance_percent'' \<mapsto> PInt 0, ''fees_due_days'' \<mapsto> PInt 90,
      ''attempts_in_subject_X'' \<mapsto> PInt 5] = Inr (0, 90, 5, 0, 0)"
  by (simp add: extract_fields_def bind_err_def dict_get_def overflow_defs)

lemma extract_boundary_medium:
  "extract_fields plain_literals [''attendance_percent'' \<mapsto> PInt 15] = Inr (15, 0, 1, 0, 0)"
  by (simp add: extract_fields_def bind_err_def dict_get_def overflow_defs)

lemma extract_attendance_70:
  "extract_fields plain_literals [''attendance_percent'' \<mapsto> PInt 70] = Inr (70, 0, 1, 0, 0)"
  by (simp add: extract_fields_def bind_err_def dict_get_def overflow_defs)

lemma summary_boundary_high:
  "calculate_risk plain_literals
     [''attendance_percent'' \<mapsto> PInt 0, ''fees_due_days'' \<mapsto> PInt 90,
      ''attempts_in_subject_X'' \<mapsto> PInt 5] =
     Inr \<lparr>risk_score = 70 / 100, risk_level = High, risk_color = ''danger'', error = None\<rparr>"
  by (simp add: calculate_risk_small [OF extract_boundary_high] risk_defs weight_defs
      threshold_defs)

lemma summary_boundary_medium:
  "calculate_risk plain_literals [''attendance_percent'' \<mapsto> PInt 15] =
     Inr \<lparr>risk_score = 40 / 100, risk_level = Medium, risk_color = ''warning'', error = None\<rparr>"
  by (simp add: calculate_risk_small [OF extract_boundary_medium] risk_defs weight_defs
      threshold_defs)

lemma summary_attendance_70:
  "calculate_risk plain_literals [''attendance_percent'' \<mapsto> PInt 70] =
     Inr \<lparr>risk_score = 1 / 30, risk_level = Low, risk_color = ''success'', error = None\<rparr>"
  by (simp add: calculate_risk_small [OF extract_attendance_70] risk_defs weight_defs
      threshold_defs)

text \<open>
  Three records: one whose score is exactly 0.70 (High), one whose score is exactly 0.40
  (Medium), one whose score is \<open>1/30\<close> (Low).
\<close>

theorem risk_level_step_function_witness:
  "calculate_risk plain_literals
     [''attendance_percent'' \<mapsto> PInt 0, ''fees_due_days'' \<mapsto> PInt 90,
      ''attempts_in_subject_X'' \<mapsto> PInt 5] =
     Inr \<lparr>risk_score = 70 / 100, risk_level = High, risk_color = ''danger'', error = None\<rparr> \<and>
   calculate_risk plain_literals [''attendance_percent'' \<mapsto> PInt 15] =
     Inr \<lparr>risk_score = 40 / 100, risk_level = Medium, risk_color = ''warning'', error = None\<rparr> \<and>
   calculate_risk plain_literals [''attendance_percent'' \<mapsto> PInt 70] =
     Inr \<lparr>risk_score = 1 / 30, risk_level = Low, risk_color = ''success'', error = None\<rparr> \<and>
   (70 / 100 :: rat) \<le> 70 / 100 \<and>
   (40 / 100 :: rat) \<le> 40 / 100 \<and> (40 / 100 :: rat) < 70 / 100 \<and>
   (1 / 30 :: rat) < 40 / 100 \<and>
   (1 / 30 :: rat) \<le> 40 / 100 \<and>
   level_rank Low \<le> level_rank Medium"
  using
    risk_level_step_function [OF summary_boundary_high, of plain_literals Map.empty]
    risk_level_step_function [OF summary_boundary_medium, of plain_literals Map.empty]
    risk_level_step_function [OF summary_attendance_70, of plain_literals
      "[''attendance_percent'' \<mapsto> PInt 15]", unfolded summary_boundary_medium]
  by (simp add: summary_boundary_high summary_boundary_medium summary_attendance_70)

section \<open>Fields missing from the record\<close>

lemma dict_get_defaults:
  "dict_get (field_defaults ++ d) ''attendance_percent'' (PInt 0) =
     dict_get d ''attendance_percent'' (PInt 0)"
  "dict_get (field_defaults ++ d) ''fees_due_days'' (PInt 0) =
     dict_get d ''fees_due_days'' (PInt 0)"
  "dict_get (field_defaults ++ d) ''attempts_in_subject_X'' (PInt 1) =
     dict_get d ''attempts_in_subject_X'' (PInt 1)"
  "dict_get (field_defaults ++ d) ''previous_3_tests_avg'' (PInt 0) =
     dict_get d ''previous_3_tests_avg'' (PInt 0)"
  "dict_get (field_defaults ++ d) ''last_3_tests_avg'' (PInt 0) =
     dict_get d ''last_3_tests_avg'' (PInt 0)"
  by (simp_all add: dict_get_def map_add_def field_defaults_def split: option.splits)

lemma extract_fields_defaults:
  "extract_fields B (field_defaults ++ d) = extract_fields B d"
  by (simp add: extract_fields_def dict_get_defaults)

lemma extract_fields_empty: "extract_fields B Map.empty = Inr (0, 0, 1, 0, 0)"
  by (simp add: extract_fields_def bind_err_def dict_get_def overflow_defs)

text \<open>
  Claim C10: a field absent from the record is read as its default (attendance 0, fees 0,
  attempts 1, both averages 0): filling the defaults in under the fields that are present
  does not change the result. The empty record converts without error, with attendance
  risk 1 and the other component risks 0, and is scored 0.5, Medium, with no error field.
\<close>

theorem missing_fields_take_defaults:
  "calculate_risk B (field_defaults ++ student_data) = calculate_risk B student_data \<and>
   extract_fields B Map.empty = Inr (0, 0, 1, 0, 0) \<and>
   calculate_attendance_risk 0 = 1 \<and>
   calculate_score_trend_risk 0 0 = 0 \<and>
   calculate_fee_risk 0 = Inr 0 \<and>
   calculate_attempts_risk 1 = Inr 0 \<and>
   calculate_risk B Map.empty =
     Inr \<lparr>risk_score = 1 / 2, risk_level = Medium, risk_color = ''warning'', error = None\<rparr>"
proof -
  have "calculate_risk B (field_defaults ++ student_data) = calculate_risk B student_data"
    by (simp add: calculate_risk_def extract_fields_defaults)
  moreover have "calculate_risk B Map.empty =
     Inr \<lparr>risk_score = 1 / 2, risk_level = Medium, risk_color = ''warning'', error = None\<rparr>"
    by (simp add: calculate_risk_small [OF extract_fields_empty] risk_defs weight_defs
        threshold_defs)
  moreover have "calculate_fee_risk 0 = Inr 0" "calculate_attempts_risk 1 = Inr 0"
    using small_fee_risk [of 0] small_attempts_risk [of 1] by simp_all
  ultimately show ?thesis
    by (simp add: extract_fields_empty risk_defs)
qed

section \<open>Properties of the component risks\<close>

text \<open>
  Claim C5, as stated: for every integer \<open>fees_due_days\<close> the fee risk is
  \<open>clamp(fees_due_days/90, 0, 1)\<close> and never negative. The function computes
  \<open>min(fees_due_days / 90, 1.0)\<close> with no lower bound, so at \<open>fees_due_days = -90\<close> it
  returns \<open>-1\<close>, which is negative and differs from the clamped value \<open>0\<close>.
\<close>

theorem calculate_fee_risk_negative_counterexample:
  "calculate_fee_risk (- 90) = Inr (- 1) \<and>
   calculate_fee_risk (- 90) \<noteq> Inr (max 0 (min (of_int (- 90) / 90) 1)) \<and>
   (- 1 :: rat) < 0"
  using small_fee_risk [of "- 90"] by simp

text \<open>
  Claim C5, amended: for every integer \<open>fees_due_days \<ge> 0\<close> such that
  \<open>fees_due_days / 90\<close> is within the range of a float, the fee risk equals
  \<open>clamp(fees_due_days/90, 0, 1)\<close> and so lies in \<open>[0, 1]\<close>; it is \<open>1\<close> at 90 days and
  \<open>1/2\<close> at 45 days. For a negative \<open>fees_due_days\<close> within that range the result is
  \<open>fees_due_days/90\<close>, which is negative. When \<open>fees_due_days / 90\<close> is beyond the range
  of a float, that is when \<open>|fees_due_days| \<ge> 90 * (2^1024 - 2^970)\<close>, the function
  raises \<^verbatim>\<open>OverflowError\<close>.
\<close>

theorem calculate_fee_risk_clamp:
  "(0 \<le> fees_due_days \<and> \<not> float_overflows (of_int fees_due_days / 90) \<longrightarrow>
      calculate_fee_risk fees_due_days = Inr (max 0 (min (of_int fees_due_days / 90) 1)) \<and>
      (0 :: rat) \<le> max 0 (min (of_int fees_due_days / 90) 1) \<and>
      max 0 (min (of_int fees_due_days / 90) 1) \<le> (1 :: rat)) \<and>
   (fees_due_days < 0 \<and> \<not> float_overflows (of_int fees_due_days / 90) \<longrightarrow>
      calculate_fee_risk fees_due_days = Inr (of_int fees_due_days / 90) \<and>
      of_int fees_due_days / 90 < (0 :: rat)) \<and>
   (float_overflows (of_int fees_due_days / 90) \<longrightarrow>
      calculate_fee_risk fees_due_days =
        Inl (OverflowError ''integer division result too large for a float'')) \<and>
   (float_overflows (of_int fees_due_days / 90) \<longleftrightarrow>
      90 * (2 ^ 1024 - 2 ^ 970) \<le> \<bar>fees_due_days\<bar>) \<and>
   calculate_fee_risk 90 = Inr 1 \<and>
   calculate_fee_risk 45 = Inr (1 / 2)"
proof -
  have "float_overflows (of_int fees_due_days / 90) \<longleftrightarrow>
      (2 ^ 1024 - 2 ^ 970 :: rat) \<le> \<bar>of_int fees_due_days\<bar> / 90"
    by (simp add: overflow_defs)
  also have "\<dots> \<longleftrightarrow> (2 ^ 1024 - 2 ^ 970 :: rat) * 90 \<le> \<bar>of_int fees_due_days\<bar>"
    by (simp add: pos_le_divide_eq)
  also have "\<dots> \<longleftrightarrow> (of_int (90 * (2 ^ 1024 - 2 ^ 970)) :: rat) \<le> of_int \<bar>fees_due_days\<bar>"
    by (simp add: mult.commute)
  also have "\<dots> \<longleftrightarrow> 90 * (2 ^ 1024 - 2 ^ 970) \<le> \<bar>fees_due_days\<bar>"
    by (simp only: of_int_le_iff)
  finally have bound: "float_overflows (of_int fees_due_days / 90) \<longleftrightarrow>
      90 * (2 ^ 1024 - 2 ^ 970) \<le> \<bar>fees_due_days\<bar>" .
  have "calculate_fee_risk 90 = Inr 1" "calculate_fee_risk 45 = Inr (1 / 2)"
    using small_fee_risk [of 90] small_fee_risk [of 45] by simp_all
  moreover have "0 \<le> fees_due_days \<and> \<not> float_overflows (of_int fees_due_days / 90) \<longrightarrow>
      calculate_fee_risk fees_due_days = Inr (max 0 (min (of_int fees_due_days / 90) 1)) \<and>
      (0 :: rat) \<le> max 0 (min (of_int fees_due_days / 90) 1) \<and>
      max 0 (min (of_int fees_due_days / 90) 1) \<le> (1 :: rat)"
    by (simp add: calculate_fee_risk_cases min_def max_def)
  moreover have "fees_due_days < 0 \<and> \<not> float_overflows (of_int fees_due_days / 90) \<longrightarrow>
      calculate_fee_risk fees_due_days = Inr (of_int fees_due_days / 90) \<and>
      of_int fees_due_days / 90 < (0 :: rat)"
    by (simp add: calculate_fee_risk_cases min_def)
  moreover have "float_overflows (of_int fees_due_days / 90) \<longrightarrow>
      calculate_fee_risk fees_due_days =
        Inl (OverflowError ''integer division result too large for a float'')"
    by (simp add: calculate_fee_risk_cases)
  ultimately show ?thesis using bound by blast
qed

text \<open>
  Fees 30 days overdue, a negative day count of \<open>-9\<close>, and \<open>10**400\<close> days.
\<close>

theorem calculate_fee_risk_clamp_witness:
  "(0::int) \<le> 30 \<and> \<not> float_overflows (of_int 30 / 90) \<and>
   calculate_fee_risk 30 = Inr (max 0 (min (of_int 30 / 90) 1)) \<and>
   calculate_fee_risk 30 = Inr (1 / 3) \<and>
   (- 9 :: int) < 0 \<and> \<not> float_overflows (of_int (- 9) / 90) \<and>
   calculate_fee_risk (- 9) = Inr (- (1 / 10)) \<and>
   float_overflows (of_int (10 ^ 400) / 90) \<and>
   calculate_fee_risk (10 ^ 400) =
     Inl (OverflowError ''integer division result too large for a float'')"
  using calculate_fee_risk_clamp [of 30] calculate_fee_risk_clamp [of "- 9"]
    calculate_fee_risk_clamp [of "10 ^ 400"]
  by (simp add: overflow_defs)

section \<open>The list of risk factors\<close>

lemma set_sort_by_contribution: "set (sort_by_contribution xs) = set xs"
  by (simp add: sort_by_contribution_def)

lemma sorted_sort_by_contribution:
  "sorted_wrt (\<lambda>x y. risk_contribution y \<le> risk_contribution x) (sort_by_contribution xs)"
proof -
  have "sorted (map (\<lambda>x. - risk_contribution x) (sort_by_contribution xs))"
    unfolding sort_by_contribution_def by (rule sorted_sort_key)
  then show ?thesis by (simp add: sorted_map)
qed

lemma insort_key_ties:
  assumes "sorted_wrt (\<lambda>x y. k x = k y \<longrightarrow> r x < (r y :: nat)) ys"
    and "\<forall>y\<in>set ys. k x = k y \<longrightarrow> r x < r y"
  shows "sorted_wrt (\<lambda>x y. k x = k y \<longrightarrow> r x < r y) (insort_key k x ys)"
  using assms
proof (induction ys)
  case Nil
  then show ?case by simp
next
  case (Cons y ys)
  show ?case
  proof (cases "k x \<le> k y")
    case True
    with Cons.prems show ?thesis by simp
  next
    case False
    then have "k x \<noteq> k y" by auto
    with False Cons show ?thesis by (auto simp: set_insort_key)
  qed
qed

lemma sort_key_ties:
  assumes "sorted_wrt (\<lambda>x y. r x < (r y :: nat)) xs"
  shows "sorted_wrt (\<lambda>x y. k x = k y \<longrightarrow> r x < r y) (sort_key k xs)"
  using assms
proof (induction xs)
  case Nil
  then show ?case by simp
next
  case (Cons x xs)
  then have "sorted_wrt (\<lambda>x y. k x = k y \<longrightarrow> r x < r y) (sort_key k xs)"
    and "\<forall>y\<in>set (sort_key k xs). k x = k y \<longrightarrow> r x < r y"
    by auto
  then show ?case by (simp add: insort_key_ties)
qed

lemma appended_factors_evaluation_order:
  "sorted_wrt (\<lambda>x y. evaluation_order (factor x) < evaluation_order (factor y))
     (appended_factors a f n p c fr tr)"
  by (cases "0 < calculate_attendance_risk a"; cases "0 < calculate_score_trend_risk p c";
      cases "0 < fr"; cases "0 < tr";
      simp add: appended_factors_def evaluation_order_def split del: if_split)

lemma appended_factors_names:
  "''Attendance'' \<in> factor ` set (appended_factors a f n p c fr tr) \<longleftrightarrow>
     0 < calculate_attendance_risk a"
  "''Test Score Trend'' \<in> factor ` set (appended_factors a f n p c fr tr) \<longleftrightarrow>
     0 < calculate_score_trend_risk p c"
  "''Fee Payment'' \<in> factor ` set (appended_factors a f n p c fr tr) \<longleftrightarrow> 0 < fr"
  "''Subject Attempts'' \<in> factor ` set (appended_factors a f n p c fr tr) \<longleftrightarrow> 0 < tr"
  "factor ` set (appended_factors a f n p c fr tr) \<subseteq>
     {''Attendance'', ''Test Score Trend'', ''Fee Payment'', ''Subject Attempts''}"
  "distinct (map factor (appended_factors a f n p c fr tr))"
  by (cases "0 < calculate_attendance_risk a"; cases "0 < calculate_score_trend_risk p c";
      cases "0 < fr"; cases "0 < tr";
      simp add: appended_factors_def split del: if_split)+

lemma appended_factors_contribution:
  assumes "x \<in> set (appended_factors a f n p c fr tr)"
  shows "risk_contribution x =
     (if factor x = ''Attendance'' then calculate_attendance_risk a * weights_attendance
      else if factor x = ''Test Score Trend'' then
        calculate_score_trend_risk p c * weights_score_trend
      else if factor x = ''Fee Payment'' then fr * weights_fees
      else tr * weights_attempts)"
  using assms
  by (cases "0 < calculate_attendance_risk a"; cases "0 < calculate_score_trend_risk p c";
      cases "0 < fr"; cases "0 < tr";
      auto simp: appended_factors_def split del: if_split)

lemma detailed_result_cases [consumes 1, case_names default ok]:
  assumes "calculate_detailed_risk B d = Inr r"
  obtains e where "extract_fields B d = Inl e" and "caught e"
      and "r = \<lparr>risk_score = 0, risk_level = Low, risk_color = ''success'',
             error = Some (''Detailed analysis error: '' @ str_exc e),
             risk_components = None, weighted_components = None,
             risk_factors = [], top_reasons = [], recommendations = []\<rparr>"
  | a f n p c fr tr where "extract_fields B d = Inr (a, f, n, p, c)"
      and "calculate_fee_risk f = Inr fr" and "calculate_attempts_risk n = Inr tr"
      and "risk_score r = py_round (risk_score (projr (calculate_risk B d))) 3"
      and "risk_components r = Some
        \<lparr>attendance_c = py_round (calculate_attendance_risk a) 3,
         score_trend_c = py_round (calculate_score_trend_risk p c) 3,
         fee_c = py_round fr 3,
         attempts_c = py_round tr 3\<rparr>"
      and "weighted_components r = Some
        \<lparr>attendance_c = py_round (calculate_attendance_risk a * weights_attendance) 3,
         score_trend_c = py_round (calculate_score_trend_risk p c * weights_score_trend) 3,
         fee_c = py_round (fr * weights_fees) 3,
         attempts_c = py_round (tr * weights_attempts) 3\<rparr>"
      and "risk_factors r = sort_by_contribution (appended_factors a f n p c fr tr)"
      and "top_reasons r = take 2 (risk_factors r)"
proof (cases B d rule: try_block_cases)
  case (conversion e)
  with assms have "caught e"
    by (simp add: calculate_detailed_risk_Inl [OF conversion] split: if_splits)
  moreover from assms this have
    "r = \<lparr>risk_score = 0, risk_level = Low, risk_color = ''success'',
             error = Some (''Detailed analysis error: '' @ str_exc e),
             risk_components = None, weighted_components = None,
             risk_factors = [], top_reasons = [], recommendations = []\<rparr>"
    by (simp add: calculate_detailed_risk_Inl [OF conversion])
  ultimately show ?thesis using conversion that(1) by blast
next
  case (fee a f n p c e)
  with assms show ?thesis by (simp add: calculate_detailed_risk_fee_Inl [OF fee])
next
  case (attempts a f n p c fr e)
  with assms show ?thesis by (simp add: calculate_detailed_risk_attempts_Inl [OF attempts])
next
  case (ok a f n p c fr tr)
  note r = assms [unfolded calculate_detailed_risk_Inr [OF ok], simplified, symmetric]
  show ?thesis
    by (rule that(2) [OF ok]) (simp_all add: r)
qed

section \<open>Risk factors and top reasons\<close>

text \<open>
  Claim C8: for a record whose fields convert and whose fee risk and attempts risk are
  computed, \<^verbatim>\<open>calculate_detailed_risk\<close> returns, and \<open>risk_factors\<close> holds exactly one
  entry for each component whose risk is positive and no other entry. In every result the
  list is in descending order of \<open>risk_contribution\<close>, entries with equal contribution
  stand in the order attendance, score trend, fees, attempts, and \<open>top_reasons\<close> is the
  first two entries of the list (all of them when there are fewer), so it has at most two
  entries, all of them entries of \<open>risk_factors\<close>.
\<close>

theorem risk_factors_sorted_top_two:
  "(extract_fields B student_data = Inr (attendance, fees_due, attempts, previous_avg, current_avg)
    \<and> calculate_fee_risk fees_due = Inr fee_risk
    \<and> calculate_attempts_risk attempts = Inr attempts_risk \<longrightarrow>
      (\<exists>r. calculate_detailed_risk B student_data = Inr r \<and>
        (''Attendance'' \<in> factor ` set (risk_factors r) \<longleftrightarrow>
           0 < calculate_attendance_risk attendance) \<and>
        (''Test Score Trend'' \<in> factor ` set (risk_factors r) \<longleftrightarrow>
           0 < calculate_score_trend_risk previous_avg current_avg) \<and>
        (''Fee Payment'' \<in> factor ` set (risk_factors r) \<longleftrightarrow> 0 < fee_risk) \<and>
        (''Subject Attempts'' \<in> factor ` set (risk_factors r) \<longleftrightarrow> 0 < attempts_risk) \<and>
        factor ` set (risk_factors r) \<subseteq>
          {''Attendance'', ''Test Score Trend'', ''Fee Payment'', ''Subject Attempts''} \<and>
        distinct (map factor (risk_factors r)))) \<and>
   (calculate_detailed_risk B student_data = Inr r \<longrightarrow>
      sorted_wrt (\<lambda>x y. risk_contribution y \<le> risk_contribution x) (risk_factors r) \<and>
      sorted_wrt (\<lambda>x y. risk_contribution x = risk_contribution y \<longrightarrow>
          evaluation_order (factor x) < evaluation_order (factor y))
        (risk_factors r) \<and>
      top_reasons r = take 2 (risk_factors r) \<and>
      length (top_reasons r) \<le> 2 \<and>
      set (top_reasons r) \<subseteq> set (risk_factors r))"
proof (intro conjI impI)
  assume h: "extract_fields B student_data =
      Inr (attendance, fees_due, attempts, previous_avg, current_avg)
    \<and> calculate_fee_risk fees_due = Inr fee_risk
    \<and> calculate_attempts_risk attempts = Inr attempts_risk"
  then have e: "extract_fields B student_data =
      Inr (attendance, fees_due, attempts, previous_avg, current_avg)"
    and fr: "calculate_fee_risk fees_due = Inr fee_risk"
    and tr: "calculate_attempts_risk attempts = Inr attempts_risk"
    by simp_all
  define r where "r = projr (calculate_detailed_risk B student_data)"
  have r: "calculate_detailed_risk B student_data = Inr r"
    unfolding r_def calculate_detailed_risk_Inr [OF e fr tr] by simp
  have rf: "risk_factors r = sort_by_contribution
      (appended_factors attendance fees_due attempts previous_avg current_avg
         fee_risk attempts_risk)"
    unfolding r_def calculate_detailed_risk_Inr [OF e fr tr] by simp
  have d: "distinct (map factor (risk_factors r))"
    unfolding rf
    using appended_factors_names(6)
      [of attendance fees_due attempts previous_avg current_avg fee_risk attempts_risk]
    by (simp add: distinct_map set_sort_by_contribution sort_by_contribution_def)
  have "(''Attendance'' \<in> factor ` set (risk_factors r) \<longleftrightarrow>
           0 < calculate_attendance_risk attendance) \<and>
        (''Test Score Trend'' \<in> factor ` set (risk_factors r) \<longleftrightarrow>
           0 < calculate_score_trend_risk previous_avg current_avg) \<and>
        (''Fee Payment'' \<in> factor ` set (risk_factors r) \<longleftrightarrow> 0 < fee_risk) \<and>
        (''Subject Attempts'' \<in> factor ` set (risk_factors r) \<longleftrightarrow> 0 < attempts_risk) \<and>
        factor ` set (risk_factors r) \<subseteq>
          {''Attendance'', ''Test Score Trend'', ''Fee Payment'', ''Subject Attempts''}"
    unfolding rf set_sort_by_contribution
    using appended_factors_names(1-5)
      [of attendance fees_due attempts previous_avg current_avg fee_risk attempts_risk]
    by blast
  with r d show "\<exists>r. calculate_detailed_risk B student_data = Inr r \<and>
        (''Attendance'' \<in> factor ` set (risk_factors r) \<longleftrightarrow>
           0 < calculate_attendance_risk attendance) \<and>
        (''Test Score Trend'' \<in> factor ` set (risk_factors r) \<longleftrightarrow>
           0 < calculate_score_trend_risk previous_avg current_avg) \<and>
        (''Fee Payment'' \<in> factor ` set (risk_factors r) \<longleftrightarrow> 0 < fee_risk) \<and>
        (''Subject Attempts'' \<in> factor ` set (risk_factors r) \<longleftrightarrow> 0 < attempts_risk) \<and>
        factor ` set (risk_factors r) \<subseteq>
          {''Attendance'', ''Test Score Trend'', ''Fee Payment'', ''Subject Attempts''} \<and>
        distinct (map factor (risk_factors r))"
    by blast
next
  assume r: "calculate_detailed_risk B student_data = Inr r"
  then show "sorted_wrt (\<lambda>x y. risk_contribution y \<le> risk_contribution x) (risk_factors r)"
  proof (cases rule: detailed_result_cases)
    case (default e)
    then show ?thesis by simp
  next
    case (ok a f n p c fr tr)
    show ?thesis unfolding ok(7) by (rule sorted_sort_by_contribution)
  qed
  from r show "sorted_wrt (\<lambda>x y. risk_contribution x = risk_contribution y \<longrightarrow>
          evaluation_order (factor x) < evaluation_order (factor y))
        (risk_factors r)"
  proof (cases rule: detailed_result_cases)
    case (default e)
    then show ?thesis by simp
  next
    case (ok a f n p c fr tr)
    have "sorted_wrt (\<lambda>x y. - risk_contribution x = - risk_contribution y \<longrightarrow>
         evaluation_order (factor x) < evaluation_order (factor y))
       (sort_key (\<lambda>x. - risk_contribution x) (appended_factors a f n p c fr tr))"
      by (rule sort_key_ties [OF appended_factors_evaluation_order])
    then show ?thesis unfolding ok(7) sort_by_contribution_def by simp
  qed
  from r show top: "top_reasons r = take 2 (risk_factors r)"
  proof (cases rule: detailed_result_cases)
    case (default e)
    then show ?thesis by simp
  next
    case (ok a f n p c fr tr)
    then show ?thesis by simp
  qed
  show "length (top_reasons r) \<le> 2" unfolding top by simp
  show "set (top_reasons r) \<subseteq> set (risk_factors r)" unfolding top by (rule set_take_subset)
qed

lemma extract_tie_example:
  "extract_fields plain_literals
     [''attendance_percent'' \<mapsto> PInt 72, ''fees_due_days'' \<mapsto> PInt 45,
      ''attempts_in_subject_X'' \<mapsto> PInt 5, ''previous_3_tests_avg'' \<mapsto> PInt 80,
      ''last_3_tests_avg'' \<mapsto> PInt 55] = Inr (72, 45, 5, 80, 55)"
  by (simp add: extract_fields_def bind_err_def dict_get_def overflow_defs)

lemma risk_values_tie_example:
  "calculate_attendance_risk 72 = 1 / 25"
  "calculate_score_trend_risk 80 55 = 1 / 4"
  "calculate_fee_risk 45 = Inr (1 / 2)"
  "calculate_attempts_risk 5 = Inr 1"
  using small_fee_risk [of 45] small_attempts_risk [of 5]
  by (simp_all add: risk_defs)

lemma appended_tie_example:
  "appended_factors 72 45 5 80 55 (1 / 2) 1 =
     [\<lparr>factor = ''Attendance'', fvalue = [Fmt_float 72, Lit ''% (below 75%)''],
       risk_contribution = 1 / 50, severity = Low\<rparr>,
      \<lparr>factor = ''Test Score Trend'',
       fvalue = [Lit ''Dropped by '', Fmt_float1 25, Lit '' points''],
       risk_contribution = 3 / 40, severity = High\<rparr>,
      \<lparr>factor = ''Fee Payment'', fvalue = [Fmt_int 45, Lit '' days overdue''],
       risk_contribution = 3 / 40, severity = Medium\<rparr>,
      \<lparr>factor = ''Subject Attempts'', fvalue = [Fmt_int 5, Lit '' attempts''],
       risk_contribution = 1 / 20, severity = High\<rparr>]"
  by (simp add: appended_factors_def risk_values_tie_example weight_defs)

lemma detailed_tie_example:
  "returned risk_factors (calculate_detailed_risk plain_literals
     [''attendance_percent'' \<mapsto> PInt 72, ''fees_due_days'' \<mapsto> PInt 45,
      ''attempts_in_subject_X'' \<mapsto> PInt 5, ''previous_3_tests_avg'' \<mapsto> PInt 80,
      ''last_3_tests_avg'' \<mapsto> PInt 55]) = Some
     [\<lparr>factor = ''Test Score Trend'',
       fvalue = [Lit ''Dropped by '', Fmt_float1 25, Lit '' points''],
       risk_contribution = 3 / 40, severity = High\<rparr>,
      \<lparr>factor = ''Fee Payment'', fvalue = [Fmt_int 45, Lit '' days overdue''],
       risk_contribution = 3 / 40, severity = Medium\<rparr>,
      \<lparr>factor = ''Subject Attempts'', fvalue = [Fmt_int 5, Lit '' attempts''],
       risk_contribution = 1 / 20, severity = High\<rparr>,
      \<lparr>factor = ''Attendance'', fvalue = [Fmt_float 72, Lit ''% (below 75%)''],
       risk_contribution = 1 / 50, severity = Low\<rparr>]"
  "returned top_reasons (calculate_detailed_risk plain_literals
     [''attendance_percent'' \<mapsto> PInt 72, ''fees_due_days'' \<mapsto> PInt 45,
      ''attempts_in_subject_X'' \<mapsto> PInt 5, ''previous_3_tests_avg'' \<mapsto> PInt 80,
      ''last_3_tests_avg'' \<mapsto> PInt 55]) = Some
     [\<lparr>factor = ''Test Score Trend'',
       fvalue = [Lit ''Dropped by '', Fmt_float1 25, Lit '' points''],
       risk_contribution = 3 / 40, severity = High\<rparr>,
      \<lparr>factor = ''Fee Payment'', fvalue = [Fmt_int 45, Lit '' days overdue''],
       risk_contribution = 3 / 40, severity = Medium\<rparr>]"
  unfolding calculate_detailed_risk_Inr
    [OF extract_tie_example risk_values_tie_example(3,4)]
  by (simp_all add: returned_def appended_tie_example sort_by_contribution_def)

text \<open>
  A record with a tie: attendance 72, fees 45 days overdue, 5 attempts, averages 80 then
  55. The score trend (risk \<open>0.25\<close>, weight \<open>0.30\<close>) and the fees (risk \<open>0.5\<close>, weight
  \<open>0.15\<close>) contribute the same amount, 0.075; the attempts contribute 0.05 and the
  attendance 0.02. The two tied factors come first, score trend before fees.
\<close>

theorem risk_factors_sorted_top_two_witness:
  "extract_fields plain_literals
     [''attendance_percent'' \<mapsto> PInt 72, ''fees_due_days'' \<mapsto> PInt 45,
      ''attempts_in_subject_X'' \<mapsto> PInt 5, ''previous_3_tests_avg'' \<mapsto> PInt 80,
      ''last_3_tests_avg'' \<mapsto> PInt 55] = Inr (72, 45, 5, 80, 55) \<and>
   calculate_fee_risk 45 = Inr (1 / 2) \<and>
   calculate_attempts_risk 5 = Inr 1 \<and>
   0 < calculate_attendance_risk 72 \<and>
   0 < calculate_score_trend_risk 80 55 \<and>
   (0 :: rat) < 1 / 2 \<and> (0 :: rat) < 1 \<and>
   returned (map factor \<circ> risk_factors) (calculate_detailed_risk plain_literals
       [''attendance_percent'' \<mapsto> PInt 72, ''fees_due_days'' \<mapsto> PInt 45,
        ''attempts_in_subject_X'' \<mapsto> PInt 5, ''previous_3_tests_avg'' \<mapsto> PInt 80,
        ''last_3_tests_avg'' \<mapsto> PInt 55]) =
     Some [''Test Score Trend'', ''Fee Payment'', ''Subject Attempts'', ''Attendance''] \<and>
   returned (map risk_contribution \<circ> risk_factors) (calculate_detailed_risk plain_literals
       [''attendance_percent'' \<mapsto> PInt 72, ''fees_due_days'' \<mapsto> PInt 45,
        ''attempts_in_subject_X'' \<mapsto> PInt 5, ''previous_3_tests_avg'' \<mapsto> PInt 80,
        ''last_3_tests_avg'' \<mapsto> PInt 55]) =
     Some [3 / 40, 3 / 40, 1 / 20, 1 / 50] \<and>
   returned (map factor \<circ> top_reasons) (calculate_detailed_risk plain_literals
       [''attendance_percent'' \<mapsto> PInt 72, ''fees_due_days'' \<mapsto> PInt 45,
        ''attempts_in_subject_X'' \<mapsto> PInt 5, ''previous_3_tests_avg'' \<mapsto> PInt 80,
        ''last_3_tests_avg'' \<mapsto> PInt 55]) =
     Some [''Test Score Trend'', ''Fee Payment'']"
proof -
  note t = risk_factors_sorted_top_two [of plain_literals
      "[''attendance_percent'' \<mapsto> PInt 72, ''fees_due_days'' \<mapsto> PInt 45,
        ''attempts_in_subject_X'' \<mapsto> PInt 5, ''previous_3_tests_avg'' \<mapsto> PInt 80,
        ''last_3_tests_avg'' \<mapsto> PInt 55]" 72 45 5 80 55 "1 / 2" 1]
  have rf: "returned (map factor \<circ> risk_factors) x = map_option (map factor) (returned risk_factors x)"
    "returned (map risk_contribution \<circ> risk_factors) x =
       map_option (map risk_contribution) (returned risk_factors x)"
    "returned (map factor \<circ> top_reasons) x = map_option (map factor) (returned top_reasons x)"
    for x :: "pyerror + risk_assessment"
    by (cases x; simp add: returned_def)+
  from t show ?thesis
    unfolding rf detailed_tie_example
    by (simp add: extract_tie_example risk_values_tie_example)
qed

section \<open>Rounding of the detailed assessment\<close>

lemma three_decimals_py_round: "three_decimals (py_round x 3)"
  by (simp add: three_decimals_def py_round_def)

lemma appended_attendance_40:
  "appended_factors 40 0 1 0 0 0 0 =
     [\<lparr>factor = ''Attendance'', fvalue = [Fmt_float 40, Lit ''% (below 75%)''],
       risk_contribution = 7 / 30, severity = High\<rparr>]"
  by (simp add: appended_factors_def risk_defs weight_defs)

lemma risk_values_defaults:
  "calculate_fee_risk 0 = Inr 0"
  "calculate_attempts_risk 1 = Inr 0"
  using small_fee_risk [of 0] small_attempts_risk [of 1] by simp_all

lemma detailed_attendance_40:
  "returned risk_factors
     (calculate_detailed_risk plain_literals [''attendance_percent'' \<mapsto> PFloat 40]) = Some
     [\<lparr>factor = ''Attendance'', fvalue = [Fmt_float 40, Lit ''% (below 75%)''],
       risk_contribution = 7 / 30, severity = High\<rparr>]"
  "returned top_reasons
     (calculate_detailed_risk plain_literals [''attendance_percent'' \<mapsto> PFloat 40]) = Some
     [\<lparr>factor = ''Attendance'', fvalue = [Fmt_float 40, Lit ''% (below 75%)''],
       risk_contribution = 7 / 30, severity = High\<rparr>]"
  unfolding calculate_detailed_risk_Inr [OF extract_attendance_40 risk_values_defaults]
  by (simp_all add: returned_def appended_attendance_40 sort_by_contribution_def)

lemma not_three_decimals_7_30: "\<not> three_decimals (7 / 30)"
proof -
  have "\<lfloor>700 / 3 :: rat\<rfloor> = 233" by (simp add: floor_eq_iff)
  then show ?thesis by (simp add: three_decimals_def)
qed

text \<open>
  Claim C4, as stated: every number in the result of \<^verbatim>\<open>calculate_detailed_risk\<close> is
  rounded to three decimals, the \<open>risk_contribution\<close> of every entry of \<open>risk_factors\<close>
  and \<open>top_reasons\<close> included. For the record \<^verbatim>\<open>{'attendance_percent': 40.0}\<close> the
  attendance entry of both lists has \<open>risk_contribution = 7/30\<close> (0.2333...), which is not
  a number of three decimals and is changed by rounding.
\<close>

theorem risk_contribution_unrounded_counterexample:
  "map_option (map risk_contribution)
     (returned risk_factors (calculate_detailed_risk plain_literals
       [''attendance_percent'' \<mapsto> PFloat 40])) = Some [7 / 30] \<and>
   map_option (map risk_contribution)
     (returned top_reasons (calculate_detailed_risk plain_literals
       [''attendance_percent'' \<mapsto> PFloat 40])) = Some [7 / 30] \<and>
   \<not> three_decimals (7 / 30) \<and>
   py_round (7 / 30) 3 \<noteq> 7 / 30"
  by (simp add: detailed_attendance_40 not_three_decimals_7_30 py_round_7_30)

text \<open>
  Claim C4, amended: in every result of \<^verbatim>\<open>calculate_detailed_risk\<close> the \<open>risk_score\<close> and
  each entry of \<open>risk_components\<close> and \<open>weighted_components\<close> is a number of three decimals:
  the score, the component risk, or the product of component risk and weight, rounded
  to three decimals. The \<open>risk_contribution\<close> of each entry of \<open>risk_factors\<close> and
  \<open>top_reasons\<close> is the product of component risk and weight, not rounded.
\<close>

theorem detailed_numbers_rounded:
  "(calculate_detailed_risk B student_data = Inr r \<longrightarrow>
      three_decimals (risk_score r) \<and>
      (\<exists>s. calculate_risk B student_data = Inr s \<and>
           risk_score r = py_round (risk_score s) 3) \<and>
      (\<forall>cs. risk_components r = Some cs \<or> weighted_components r = Some cs \<longrightarrow>
         three_decimals (attendance_c cs) \<and> three_decimals (score_trend_c cs) \<and>
         three_decimals (fee_c cs) \<and> three_decimals (attempts_c cs))) \<and>
   (extract_fields B student_data = Inr (attendance, fees_due, attempts, previous_avg, current_avg)
    \<and> calculate_fee_risk fees_due = Inr fee_risk
    \<and> calculate_attempts_risk attempts = Inr attempts_risk \<longrightarrow>
      (\<exists>r. calculate_detailed_risk B student_data = Inr r \<and>
        risk_components r = Some
          \<lparr>attendance_c = py_round (calculate_attendance_risk attendance) 3,
           score_trend_c = py_round (calculate_score_trend_risk previous_avg current_avg) 3,
           fee_c = py_round fee_risk 3,
           attempts_c = py_round attempts_risk 3\<rparr> \<and>
        weighted_components r = Some
          \<lparr>attendance_c = py_round (calculate_attendance_risk attendance * weights_attendance) 3,
           score_trend_c =
             py_round (calculate_score_trend_risk previous_avg current_avg * weights_score_trend) 3,
           fee_c = py_round (fee_risk * weights_fees) 3,
           attempts_c = py_round (attempts_risk * weights_attempts) 3\<rparr> \<and>
        (\<forall>x \<in> set (risk_factors r) \<union> set (top_reasons r).
           risk_contribution x =
             (if factor x = ''Attendance'' then
                calculate_attendance_risk attendance * weights_attendance
              else if factor x = ''Test Score Trend'' then
                calculate_score_trend_risk previous_avg current_avg * weights_score_trend
              else if factor x = ''Fee Payment'' then fee_risk * weights_fees
              else attempts_risk * weights_attempts))))"
proof (intro conjI impI)
  assume r: "calculate_detailed_risk B student_data = Inr r"
  from detailed_summary_agree(4) [of B student_data]
  have sc: "\<exists>s. calculate_risk B student_data = Inr s \<and>
           risk_score r = py_round (risk_score s) 3"
    unfolding r by (cases "calculate_risk B student_data") (simp_all add: returned_def)
  then show "three_decimals (risk_score r)"
    by (auto simp: three_decimals_py_round)
  from sc show "\<exists>s. calculate_risk B student_data = Inr s \<and>
           risk_score r = py_round (risk_score s) 3" .
  from r show "\<forall>cs. risk_components r = Some cs \<or> weighted_components r = Some cs \<longrightarrow>
         three_decimals (attendance_c cs) \<and> three_decimals (score_trend_c cs) \<and>
         three_decimals (fee_c cs) \<and> three_decimals (attempts_c cs)"
  proof (cases rule: detailed_result_cases)
    case (default e)
    then show ?thesis by simp
  next
    case (ok a f n p c fr tr)
    show ?thesis unfolding ok(5,6) by (auto simp: three_decimals_py_round)
  qed
next
  assume h: "extract_fields B student_data =
      Inr (attendance, fees_due, attempts, previous_avg, current_avg)
    \<and> calculate_fee_risk fees_due = Inr fee_risk
    \<and> calculate_attempts_risk attempts = Inr attempts_risk"
  then have e: "extract_fields B student_data =
      Inr (attendance, fees_due, attempts, previous_avg, current_avg)"
    and fr: "calculate_fee_risk fees_due = Inr fee_risk"
    and tr: "calculate_attempts_risk attempts = Inr attempts_risk"
    by simp_all
  define r where "r = projr (calculate_detailed_risk B student_data)"
  note m = calculate_detailed_risk_Inr [OF e fr tr]
  have r: "calculate_detailed_risk B student_data = Inr r"
    unfolding r_def m by simp
  have comps: "risk_components r = Some
          \<lparr>attendance_c = py_round (calculate_attendance_risk attendance) 3,
           score_trend_c = py_round (calculate_score_trend_risk previous_avg current_avg) 3,
           fee_c = py_round fee_risk 3,
           attempts_c = py_round attempts_risk 3\<rparr>"
    unfolding r_def m by simp
  have wcomps: "weighted_components r = Some
          \<lparr>attendance_c = py_round (calculate_attendance_risk attendance * weights_attendance) 3,
           score_trend_c =
             py_round (calculate_score_trend_risk previous_avg current_avg * weights_score_trend) 3,
           fee_c = py_round (fee_risk * weights_fees) 3,
           attempts_c = py_round (attempts_risk * weights_attempts) 3\<rparr>"
    unfolding r_def m by simp
  have rf: "risk_factors r = sort_by_contribution
      (appended_factors attendance fees_due attempts previous_avg current_avg
         fee_risk attempts_risk)"
    unfolding r_def m by simp
  have top: "top_reasons r = take 2 (risk_factors r)"
    unfolding r_def m by simp
  have mem: "x \<in> set (appended_factors attendance fees_due attempts previous_avg current_avg
         fee_risk attempts_risk)"
    if "x \<in> set (risk_factors r) \<union> set (top_reasons r)" for x
    using that set_take_subset [of 2 "risk_factors r"]
    unfolding top rf set_sort_by_contribution by auto
  have "\<forall>x \<in> set (risk_factors r) \<union> set (top_reasons r).
           risk_contribution x =
             (if factor x = ''Attendance'' then
                calculate_attendance_risk attendance * weights_attendance
              else if factor x = ''Test Score Trend'' then
                calculate_score_trend_risk previous_avg current_avg * weights_score_trend
              else if factor x = ''Fee Payment'' then fee_risk * weights_fees
              else attempts_risk * weights_attempts)"
    using mem appended_factors_contribution by blast
  with r comps wcomps
  show "\<exists>r. calculate_detailed_risk B student_data = Inr r \<and>
        risk_components r = Some
          \<lparr>attendance_c = py_round (calculate_attendance_risk attendance) 3,
           score_trend_c = py_round (calculate_score_trend_risk previous_avg current_avg) 3,
           fee_c = py_round fee_risk 3,
           attempts_c = py_round attempts_risk 3\<rparr> \<and>
        weighted_components r = Some
          \<lparr>attendance_c = py_round (calculate_attendance_risk attendance * weights_attendance) 3,
           score_trend_c =
             py_round (calculate_score_trend_risk previous_avg current_avg * weights_score_trend) 3,
           fee_c = py_round (fee_risk * weights_fees) 3,
           attempts_c = py_round (attempts_risk * weights_attempts) 3\<rparr> \<and>
        (\<forall>x \<in> set (risk_factors r) \<union> set (top_reasons r).
           risk_contribution x =
             (if factor x = ''Attendance'' then
                calculate_attendance_risk attendance * weights_attendance
              else if factor x = ''Test Score Trend'' then
                calculate_score_trend_risk previous_avg current_avg * weights_score_trend
              else if factor x = ''Fee Payment'' then fee_risk * weights_fees
              else attempts_risk * weights_attempts))"
    by blast
qed

lemma py_round_examples:
  "py_round (7 / 15) 3 = 467 / 1000"
  "py_round (1 / 4) 3 = 1 / 4"
  "py_round 1 3 = 1"
  "py_round (3 / 40) 3 = 3 / 40"
  "py_round (3 / 20) 3 = 3 / 20"
  "py_round (1 / 20) 3 = 1 / 20"
  "py_round (61 / 120) 3 = 127 / 250"
  by code_simp+

lemma appended_spec_example:
  "appended_factors 40 100 5 80 55 1 1 =
     [\<lparr>factor = ''Attendance'', fvalue = [Fmt_float 40, Lit ''% (below 75%)''],
       risk_contribution = 7 / 30, severity = High\<rparr>,
      \<lparr>factor = ''Test Score Trend'',
       fvalue = [Lit ''Dropped by '', Fmt_float1 25, Lit '' points''],
       risk_contribution = 3 / 40, severity = High\<rparr>,
      \<lparr>factor = ''Fee Payment'', fvalue = [Fmt_int 100, Lit '' days overdue''],
       risk_contribution = 3 / 20, severity = High\<rparr>,
      \<lparr>factor = ''Subject Attempts'', fvalue = [Fmt_int 5, Lit '' attempts''],
       risk_contribution = 1 / 20, severity = High\<rparr>]"
  by (simp add: appended_factors_def risk_values_spec_example weight_defs)

lemma detailed_spec_example:
  "returned risk_score (calculate_detailed_risk plain_literals
     [''attendance_percent'' \<mapsto> PInt 40, ''fees_due_days'' \<mapsto> PInt 100,
      ''attempts_in_subject_X'' \<mapsto> PInt 5, ''previous_3_tests_avg'' \<mapsto> PInt 80,
      ''last_3_tests_avg'' \<mapsto> PInt 55]) = Some (127 / 250)"
  "returned risk_components (calculate_detailed_risk plain_literals
     [''attendance_percent'' \<mapsto> PInt 40, ''fees_due_days'' \<mapsto> PInt 100,
      ''attempts_in_subject_X'' \<mapsto> PInt 5, ''previous_3_tests_avg'' \<mapsto> PInt 80,
      ''last_3_tests_avg'' \<mapsto> PInt 55]) =
     Some (Some \<lparr>attendance_c = 467 / 1000, score_trend_c = 1 / 4, fee_c = 1,
                  attempts_c = 1\<rparr>)"
  "returned weighted_components (calculate_detailed_risk plain_literals
     [''attendance_percent'' \<mapsto> PInt 40, ''fees_due_days'' \<mapsto> PInt 100,
      ''attempts_in_subject_X'' \<mapsto> PInt 5, ''previous_3_tests_avg'' \<mapsto> PInt 80,
      ''last_3_tests_avg'' \<mapsto> PInt 55]) =
     Some (Some \<lparr>attendance_c = 233 / 1000, score_trend_c = 3 / 40, fee_c = 3 / 20,
                  attempts_c = 1 / 20\<rparr>)"
  "map_option (map (\<lambda>x. (factor x, risk_contribution x)))
     (returned risk_factors (calculate_detailed_risk plain_literals
       [''attendance_percent'' \<mapsto> PInt 40, ''fees_due_days'' \<mapsto> PInt 100,
        ''attempts_in_subject_X'' \<mapsto> PInt 5, ''previous_3_tests_avg'' \<mapsto> PInt 80,
        ''last_3_tests_avg'' \<mapsto> PInt 55])) =
     Some [(''Attendance'', 7 / 30), (''Fee Payment'', 3 / 20), (''Test Score Trend'', 3 / 40),
           (''Subject Attempts'', 1 / 20)]"
  unfolding calculate_detailed_risk_Inr
    [OF extract_spec_example risk_values_spec_example(3,4)] summary_spec_example
  by (simp_all add: returned_def risk_values_spec_example py_round_examples py_round_7_30
      weight_defs appended_spec_example sort_by_contribution_def)

text \<open>
  The record of the end-to-end example: score \<open>61/120\<close> (0.50833...) is returned as
  0.508, the attendance risk \<open>7/15\<close> as 0.467, its weighted value \<open>7/30\<close> as 0.233, while
  the attendance entry of \<open>risk_factors\<close> keeps \<open>7/30\<close>.
\<close>

theorem detailed_numbers_rounded_witness:
  "extract_fields plain_literals
     [''attendance_percent'' \<mapsto> PInt 40, ''fees_due_days'' \<mapsto> PInt 100,
      ''attempts_in_subject_X'' \<mapsto> PInt 5, ''previous_3_tests_avg'' \<mapsto> PInt 80,
      ''last_3_tests_avg'' \<mapsto> PInt 55] = Inr (40, 100, 5, 80, 55) \<and>
   calculate_fee_risk 100 = Inr 1 \<and>
   calculate_attempts_risk 5 = Inr 1 \<and>
   returned risk_score (calculate_detailed_risk plain_literals
     [''attendance_percent'' \<mapsto> PInt 40, ''fees_due_days'' \<mapsto> PInt 100,
      ''attempts_in_subject_X'' \<mapsto> PInt 5, ''previous_3_tests_avg'' \<mapsto> PInt 80,
      ''last_3_tests_avg'' \<mapsto> PInt 55]) = Some (127 / 250) \<and>
   returned risk_components (calculate_detailed_risk plain_literals
     [''attendance_percent'' \<mapsto> PInt 40, ''fees_due_days'' \<mapsto> PInt 100,
      ''attempts_in_subject_X'' \<mapsto> PInt 5, ''previous_3_tests_avg'' \<mapsto> PInt 80,
      ''last_3_tests_avg'' \<mapsto> PInt 55]) =
     Some (Some \<lparr>attendance_c = 467 / 1000, score_trend_c = 1 / 4, fee_c = 1,
                  attempts_c = 1\<rparr>) \<and>
   returned weighted_components (calculate_detailed_risk plain_literals
     [''attendance_percent'' \<mapsto> PInt 40, ''fees_due_days'' \<mapsto> PInt 100,
      ''attempts_in_subject_X'' \<mapsto> PInt 5, ''previous_3_tests_avg'' \<mapsto> PInt 80,
      ''last_3_tests_avg'' \<mapsto> PInt 55]) =
     Some (Some \<lparr>attendance_c = 233 / 1000, score_trend_c = 3 / 40, fee_c = 3 / 20,
                  attempts_c = 1 / 20\<rparr>) \<and>
   map_option (map (\<lambda>x. (factor x, risk_contribution x)))
     (returned risk_factors (calculate_detailed_risk plain_literals
       [''attendance_percent'' \<mapsto> PInt 40, ''fees_due_days'' \<mapsto> PInt 100,
        ''attempts_in_subject_X'' \<mapsto> PInt 5, ''previous_3_tests_avg'' \<mapsto> PInt 80,
        ''last_3_tests_avg'' \<mapsto> PInt 55])) =
     Some [(''Attendance'', 7 / 30), (''Fee Payment'', 3 / 20), (''Test Score Trend'', 3 / 40),
           (''Subject Attempts'', 1 / 20)]"
  using detailed_numbers_rounded [of plain_literals
      "[''attendance_percent'' \<mapsto> PInt 40, ''fees_due_days'' \<mapsto> PInt 100,
        ''attempts_in_subject_X'' \<mapsto> PInt 5, ''previous_3_tests_avg'' \<mapsto> PInt 80,
        ''last_3_tests_avg'' \<mapsto> PInt 55]" _ 40 100 5 80 55 1 1]
  unfolding detailed_spec_example
  by (simp add: extract_spec_example risk_values_spec_example)

section \<open>The recommendation for attendance between 65 and 75\<close>

lemma extract_attendance_70_record:
  "extract_fields plain_literals
     [''attendance_percent'' \<mapsto> PFloat 70, ''fees_due_days'' \<mapsto> PInt 0,
      ''attempts_in_subject_X'' \<mapsto> PInt 1, ''previous_3_tests_avg'' \<mapsto> PFloat 60,
      ''last_3_tests_avg'' \<mapsto> PFloat 60] = Inr (70, 0, 1, 60, 60)"
  by (simp add: extract_fields_def bind_err_def dict_get_def)

lemma appended_attendance_70:
  "appended_factors 70 0 1 60 60 0 0 =
     [\<lparr>factor = ''Attendance'', fvalue = [Fmt_float 70, Lit ''% (below 75%)''],
       risk_contribution = 1 / 30, severity = Low\<rparr>]"
  by (simp add: appended_factors_def risk_defs weight_defs)

lemma generate_recommendations_attendance_70:
  "generate_recommendations B d
     [\<lparr>factor = ''Attendance'', fvalue = [Fmt_float 70, Lit ''% (below 75%)''],
       risk_contribution = 1 / 30, severity = Low\<rparr>] = Inr []"
  by (simp add: generate_recommendations_def bind_err_def)

text \<open>
  Claim C6 at the record with attendance 70, no fees due, first attempt, averages 60 and
  60: the attendance risk is \<open>1/15\<close>, the only risk factor is Attendance with severity
  Low, and the list of recommendations is empty. The sentence about monitoring attendance
  is not in it.
\<close>

theorem attendance_70_no_recommendation:
  "calculate_attendance_risk 70 = 1 / 15 \<and>
   map_option (map (\<lambda>x. (factor x, severity x)))
     (returned risk_factors (calculate_detailed_risk plain_literals
       [''attendance_percent'' \<mapsto> PFloat 70, ''fees_due_days'' \<mapsto> PInt 0,
        ''attempts_in_subject_X'' \<mapsto> PInt 1, ''previous_3_tests_avg'' \<mapsto> PFloat 60,
        ''last_3_tests_avg'' \<mapsto> PFloat 60])) = Some [(''Attendance'', Low)] \<and>
   returned recommendations (calculate_detailed_risk plain_literals
       [''attendance_percent'' \<mapsto> PFloat 70, ''fees_due_days'' \<mapsto> PInt 0,
        ''attempts_in_subject_X'' \<mapsto> PInt 1, ''previous_3_tests_avg'' \<mapsto> PFloat 60,
        ''last_3_tests_avg'' \<mapsto> PFloat 60]) = Some [] \<and>
   returned (\<lambda>r. ''Monitor attendance closely and provide gentle reminders'' \<in>
                 set (recommendations r))
     (calculate_detailed_risk plain_literals
       [''attendance_percent'' \<mapsto> PFloat 70, ''fees_due_days'' \<mapsto> PInt 0,
        ''attempts_in_subject_X'' \<mapsto> PInt 1, ''previous_3_tests_avg'' \<mapsto> PFloat 60,
        ''last_3_tests_avg'' \<mapsto> PFloat 60]) = Some False"
  unfolding calculate_detailed_risk_Inr [OF extract_attendance_70_record risk_values_defaults]
  by (simp add: returned_def appended_attendance_70 sort_by_contribution_def
      generate_recommendations_attendance_70 calculate_attendance_risk_def)

end
